theory Spec2Isabelle
  imports Main "HOL-Library.Word"
begin

section \<open>Shared data model\<close>

text \<open>
  The interfaces of the shared package. A \<open>Date\<close> and the ISO-8601 string that
  \<open>JSON.stringify\<close> makes of it are both represented by the instant they denote, in
  milliseconds since the epoch: no operation of the store or the service looks at a
  timestamp in any other way than copying it.
\<close>

type_synonym instant = int

record Font =
  id :: string
  name :: string
  filename :: string
  originalName :: string
  path :: string
  uploadedAt :: instant

record FontGroup =
  id :: string
  name :: string
  fonts :: "Font list"
  createdAt :: instant
  updatedAt :: instant

record CreateFontGroupRequest =
  name :: string
  fontIds :: "string list"

record UpdateFontGroupRequest =
  id :: string
  name :: string
  fontIds :: "string list"

record DatabaseData =
  fonts :: "Font list"
  fontGroups :: "FontGroup list"

section \<open>JSON values and the database file\<close>

text \<open>
  The values the program holds. \<open>JSON.parse\<close> can return all of them but \<open>JNaN\<close> and
  \<open>JDate\<close>. \<open>JIso t\<close> is the string that holds the ISO-8601 form of the instant
  \<open>t\<close>; \<open>JStr\<close> holds every other string; \<open>JDate t\<close> is a \<open>Date\<close> object. Finite
  numbers are kept to the integers (\<open>JNum\<close>) and the negative zero; \<open>JInfinity\<close> carries
  the sign, \<open>True\<close> for the negative one.
\<close>

datatype json =
    JNull
  | JBool bool
  | JNum int
  | JNegZero
  | JInfinity bool
  | JNaN
  | JStr string
  | JIso instant
  | JDate instant
  | JArr "json list"
  | JObj "(string \<times> json) list"

text \<open>
  The text of a JSON document, up to what parsing does not see (white space, escapes, the
  spelling of a number in range). \<open>TNum n\<close> is a literal of the integer \<open>n\<close>, \<open>TNegZero\<close>
  the literal \<open>-0\<close>, and \<open>THuge\<close> a literal beyond the range of the doubles, such as
  \<open>1e400\<close>, with its sign.
\<close>

datatype json_text =
    TNull
  | TBool bool
  | TNum int
  | TNegZero
  | THuge bool
  | TStr string
  | TIso instant
  | TArr "json_text list"
  | TObj "(string \<times> json_text) list"

text \<open>
  \<open>JSON.stringify\<close>: a number that is not finite is written as \<open>null\<close>, the negative
  zero as \<open>0\<close>, and a \<open>Date\<close> as its ISO string.
\<close>

primrec JSON_stringify :: "json \<Rightarrow> json_text" where
  "JSON_stringify JNull = TNull"
| "JSON_stringify (JBool b) = TBool b"
| "JSON_stringify (JNum n) = TNum n"
| "JSON_stringify JNegZero = TNum 0"
| "JSON_stringify (JInfinity negative) = TNull"
| "JSON_stringify JNaN = TNull"
| "JSON_stringify (JStr s) = TStr s"
| "JSON_stringify (JIso t) = TIso t"
| "JSON_stringify (JDate t) = TIso t"
| "JSON_stringify (JArr items) = TArr (map JSON_stringify items)"
| "JSON_stringify (JObj members) = TObj (map (map_prod (\<lambda>key. key) JSON_stringify) members)"

text \<open>\<open>JSON.parse\<close>: a literal beyond the range of the doubles is read as an infinity.\<close>

primrec JSON_parse :: "json_text \<Rightarrow> json" where
  "JSON_parse TNull = JNull"
| "JSON_parse (TBool b) = JBool b"
| "JSON_parse (TNum n) = JNum n"
| "JSON_parse TNegZero = JNegZero"
| "JSON_parse (THuge negative) = JInfinity negative"
| "JSON_parse (TStr s) = JStr s"
| "JSON_parse (TIso t) = JIso t"
| "JSON_parse (TArr items) = JArr (map JSON_parse items)"
| "JSON_parse (TObj members) = JObj (map (map_prod (\<lambda>key. key) JSON_parse) members)"

text \<open>
  The file \<open>data/database.json\<close>: it does not exist, or it holds a text on which
  \<open>JSON.parse\<close> throws, or it holds a text that parses. A file that parses is
  represented by the value \<open>JSON.parse\<close> returns on its text. File system calls on an
  existing path succeed.
\<close>

datatype db_file =
    Absent
  | Unparseable string
  | Parses json

text \<open>\<open>JSON.stringify\<close> of the typed values, key order as the object literals have it.\<close>

definition Font_json :: "Font \<Rightarrow> json" where
  "Font_json font = JObj
     [(''id'', JStr (Font.id font)),
      (''name'', JStr (Font.name font)),
      (''filename'', JStr (filename font)),
      (''originalName'', JStr (originalName font)),
      (''path'', JStr (path font)),
      (''uploadedAt'', JIso (uploadedAt font))]"

definition FontGroup_json :: "FontGroup \<Rightarrow> json" where
  "FontGroup_json g = JObj
     [(''id'', JStr (FontGroup.id g)),
      (''name'', JStr (FontGroup.name g)),
      (''fonts'', JArr (map Font_json (FontGroup.fonts g))),
      (''createdAt'', JIso (createdAt g)),
      (''updatedAt'', JIso (updatedAt g))]"

definition DatabaseData_json :: "DatabaseData \<Rightarrow> json" where
  "DatabaseData_json data = JObj
     [(''fonts'', JArr (map Font_json (DatabaseData.fonts data))),
      (''fontGroups'', JArr (map FontGroup_json (fontGroups data)))]"

text \<open>
  The other direction: whether a parsed value has the shape of the interface, and the
  typed value it then is. The TypeScript annotation \<open>Promise<DatabaseData>\<close> on
  \<open>read\<close> is not checked when the program runs; \<open>as_DatabaseData\<close> is that check.
\<close>

fun jstr :: "json \<Rightarrow> string option" where
  "jstr (JStr s) = Some s"
| "jstr _ = None"

fun jiso :: "json \<Rightarrow> instant option" where
  "jiso (JIso t) = Some t"
| "jiso _ = None"

fun jarr :: "json \<Rightarrow> json list option" where
  "jarr (JArr js) = Some js"
| "jarr _ = None"

fun jobj :: "json \<Rightarrow> (string \<times> json) list option" where
  "jobj (JObj kvs) = Some kvs"
| "jobj _ = None"

definition as_Font :: "json \<Rightarrow> Font option" where
  "as_Font j =
     (case jobj j of
        None \<Rightarrow> None
      | Some kvs \<Rightarrow>
          if map fst kvs = [''id'', ''name'', ''filename'', ''originalName'', ''path'', ''uploadedAt'']
          then (case (those (map jstr (take 5 (map snd kvs))), jiso (snd (kvs ! 5))) of
                  (Some [a, b, c, d, e], Some t) \<Rightarrow>
                    Some \<lparr>Font.id = a, name = b, filename = c, originalName = d, path = e,
                          uploadedAt = t\<rparr>
                | _ \<Rightarrow> None)
          else None)"

definition as_Fonts :: "json \<Rightarrow> Font list option" where
  "as_Fonts j = (case jarr j of None \<Rightarrow> None | Some js \<Rightarrow> those (map as_Font js))"

definition as_FontGroup :: "json \<Rightarrow> FontGroup option" where
  "as_FontGroup j =
     (case jobj j of
        None \<Rightarrow> None
      | Some kvs \<Rightarrow>
          if map fst kvs = [''id'', ''name'', ''fonts'', ''createdAt'', ''updatedAt'']
          then (case (jstr (snd (kvs ! 0)), jstr (snd (kvs ! 1)), as_Fonts (snd (kvs ! 2)),
                      jiso (snd (kvs ! 3)), jiso (snd (kvs ! 4))) of
                  (Some a, Some b, Some fs, Some c, Some u) \<Rightarrow>
                    Some \<lparr>FontGroup.id = a, name = b, fonts = fs, createdAt = c, updatedAt = u\<rparr>
                | _ \<Rightarrow> None)
          else None)"

definition as_DatabaseData :: "json \<Rightarrow> DatabaseData option" where
  "as_DatabaseData j =
     (case jobj j of
        None \<Rightarrow> None
      | Some kvs \<Rightarrow>
          if map fst kvs = [''fonts'', ''fontGroups'']
          then (case (as_Fonts (snd (kvs ! 0)), jarr (snd (kvs ! 1))) of
                  (Some fs, Some gjs) \<Rightarrow>
                    (case those (map as_FontGroup gjs) of
                       None \<Rightarrow> None
                     | Some gs \<Rightarrow> Some \<lparr>DatabaseData.fonts = fs, fontGroups = gs\<rparr>)
                | _ \<Rightarrow> None)
          else None)"

section \<open>JsonDatabase\<close>

text \<open>\<open>initialData\<close> of \<open>ensureDatabase\<close>, also the value \<open>read\<close> falls back to.\<close>

definition initialData :: DatabaseData where
  "initialData = \<lparr>DatabaseData.fonts = [], fontGroups = []\<rparr>"

definition ensureDatabase :: "db_file \<Rightarrow> db_file" where
  "ensureDatabase f =
     (case f of
        Absent \<Rightarrow> Parses (JSON_parse (JSON_stringify (DatabaseData_json initialData)))
      | _ \<Rightarrow> f)"

text \<open>
  \<open>read\<close> returns what \<open>JSON.parse\<close> returned, as it is; the \<open>catch\<close> covers both
  \<open>readFile\<close> and \<open>JSON.parse\<close>. The second component is the file afterwards.
\<close>

definition JsonDatabase_read :: "db_file \<Rightarrow> json \<times> db_file" where
  "JsonDatabase_read f =
     (let f1 = ensureDatabase f
      in case f1 of
           Parses parsed \<Rightarrow> (parsed, f1)
         | _ \<Rightarrow> (DatabaseData_json initialData, f1))"

text \<open>
  \<open>write\<close> replaces the text of the file by \<open>JSON.stringify(data, null, 2)\<close>; the file
  is then one that parses to what \<open>JSON.parse\<close> returns on that text.
\<close>

definition JsonDatabase_write :: "json \<Rightarrow> db_file \<Rightarrow> db_file" where
  "JsonDatabase_write data f =
     (let f1 = ensureDatabase f in Parses (JSON_parse (JSON_stringify data)))"

text \<open>
  The methods below use the result of \<open>read\<close> at type \<open>DatabaseData\<close>. Where the
  parsed value does not have that shape the types say nothing about the run, and the
  model stops with \<open>ShapeMismatch\<close>.
\<close>

datatype error = InvalidFileType | RangeError | ShapeMismatch

definition read_data :: "db_file \<Rightarrow> error + (DatabaseData \<times> db_file)" where
  "read_data f =
     (case JsonDatabase_read f of (parsed, f1) \<Rightarrow>
        (case as_DatabaseData parsed of
           None \<Rightarrow> Inl ShapeMismatch
         | Some data \<Rightarrow> Inr (data, f1)))"

definition write_data :: "DatabaseData \<Rightarrow> db_file \<Rightarrow> db_file" where
  "write_data data f = JsonDatabase_write (DatabaseData_json data) f"

text \<open>\<open>Array.prototype.findIndex\<close>: the first index whose element satisfies, or -1.\<close>

fun findIndex :: "('a \<Rightarrow> bool) \<Rightarrow> 'a list \<Rightarrow> int" where
  "findIndex P [] = - 1"
| "findIndex P (x # xs) =
     (if P x then 0
      else (let k = findIndex P xs in if k = - 1 then - 1 else k + 1))"

text \<open>
  \<open>Array.prototype.splice(start, deleteCount)\<close> with no inserted items: a negative
  start counts from the end, and the start is clamped to the array.
\<close>

definition Array_splice :: "'a list \<Rightarrow> int \<Rightarrow> nat \<Rightarrow> 'a list" where
  "Array_splice xs start deleteCount =
     (let len = int (length xs);
          s = nat (if start < 0 then max (len + start) 0 else min start len)
      in take s xs @ drop (s + deleteCount) xs)"

definition JsonDatabase_getAllFonts :: "db_file \<Rightarrow> error + (Font list \<times> db_file)" where
  "JsonDatabase_getAllFonts f =
     (case read_data f of
        Inl e \<Rightarrow> Inl e
      | Inr (data, f1) \<Rightarrow> Inr (DatabaseData.fonts data, f1))"

definition JsonDatabase_addFont :: "Font \<Rightarrow> db_file \<Rightarrow> error + (unit \<times> db_file)" where
  "JsonDatabase_addFont font f =
     (case read_data f of
        Inl e \<Rightarrow> Inl e
      | Inr (data, f1) \<Rightarrow>
          Inr ((), write_data (data\<lparr>DatabaseData.fonts := DatabaseData.fonts data @ [font]\<rparr>) f1))"

definition JsonDatabase_getFontById :: "string \<Rightarrow> db_file \<Rightarrow> error + (Font option \<times> db_file)" where
  "JsonDatabase_getFontById i f =
     (case read_data f of
        Inl e \<Rightarrow> Inl e
      | Inr (data, f1) \<Rightarrow> Inr (find (\<lambda>font. Font.id font = i) (DatabaseData.fonts data), f1))"

definition JsonDatabase_deleteFont :: "string \<Rightarrow> db_file \<Rightarrow> error + (bool \<times> db_file)" where
  "JsonDatabase_deleteFont i f =
     (case read_data f of
        Inl e \<Rightarrow> Inl e
      | Inr (data, f1) \<Rightarrow>
          (let fontIndex = findIndex (\<lambda>font. Font.id font = i) (DatabaseData.fonts data)
           in if fontIndex = - 1 then Inr (False, f1)
              else
                (let data1 = data\<lparr>DatabaseData.fonts := Array_splice (DatabaseData.fonts data) fontIndex 1\<rparr>;
                     data2 = data1\<lparr>fontGroups :=
                       map (\<lambda>group. group\<lparr>FontGroup.fonts :=
                              filter (\<lambda>font. Font.id font \<noteq> i) (FontGroup.fonts group)\<rparr>)
                           (fontGroups data1)\<rparr>
                 in Inr (True, write_data data2 f1))))"

definition JsonDatabase_getAllFontGroups :: "db_file \<Rightarrow> error + (FontGroup list \<times> db_file)" where
  "JsonDatabase_getAllFontGroups f =
     (case read_data f of
        Inl e \<Rightarrow> Inl e
      | Inr (data, f1) \<Rightarrow> Inr (fontGroups data, f1))"

definition JsonDatabase_addFontGroup :: "FontGroup \<Rightarrow> db_file \<Rightarrow> error + (unit \<times> db_file)" where
  "JsonDatabase_addFontGroup fontGroup f =
     (case read_data f of
        Inl e \<Rightarrow> Inl e
      | Inr (data, f1) \<Rightarrow>
          Inr ((), write_data (data\<lparr>fontGroups := fontGroups data @ [fontGroup]\<rparr>) f1))"

definition JsonDatabase_getFontGroupById ::
  "string \<Rightarrow> db_file \<Rightarrow> error + (FontGroup option \<times> db_file)" where
  "JsonDatabase_getFontGroupById i f =
     (case read_data f of
        Inl e \<Rightarrow> Inl e
      | Inr (data, f1) \<Rightarrow> Inr (find (\<lambda>group. FontGroup.id group = i) (fontGroups data), f1))"

definition JsonDatabase_updateFontGroup :: "FontGroup \<Rightarrow> db_file \<Rightarrow> error + (bool \<times> db_file)" where
  "JsonDatabase_updateFontGroup updatedGroup f =
     (case read_data f of
        Inl e \<Rightarrow> Inl e
      | Inr (data, f1) \<Rightarrow>
          (let groupIndex =
                 findIndex (\<lambda>group. FontGroup.id group = FontGroup.id updatedGroup) (fontGroups data)
           in if groupIndex = - 1 then Inr (False, f1)
              else Inr (True,
                     write_data (data\<lparr>fontGroups := (fontGroups data)[nat groupIndex := updatedGroup]\<rparr>)
                       f1)))"

definition JsonDatabase_deleteFontGroup :: "string \<Rightarrow> db_file \<Rightarrow> error + (bool \<times> db_file)" where
  "JsonDatabase_deleteFontGroup i f =
     (case read_data f of
        Inl e \<Rightarrow> Inl e
      | Inr (data, f1) \<Rightarrow>
          (let groupIndex = findIndex (\<lambda>group. FontGroup.id group = i) (fontGroups data)
           in if groupIndex = - 1 then Inr (False, f1)
              else Inr (True,
                     write_data (data\<lparr>fontGroups := Array_splice (fontGroups data) groupIndex 1\<rparr>) f1)))"

section \<open>FontService\<close>

text \<open>
  The service reads three things it does not compute: the identifier that \<open>uuidv4()\<close>
  returns, the instants that \<open>new Date()\<close> returns, and the uploaded file object. They
  are arguments of the model. The state is the database file, the files of the
  \<open>uploads\<close> directory (a map from file names to contents), and the working directory
  of the process, as the list of directory names from the root.
\<close>

type_synonym byte = "8 word"

record File =
  arrayBuffer :: "byte list option"
  stream :: "byte list list option"

record fs_state =
  db :: db_file
  uploads :: "string \<Rightarrow> byte list option"
  cwd :: "string list"

text \<open>
  \<open>path.join\<close> on a POSIX system, from the working directory: the arguments are cut at
  every \<open>/\<close>, an empty segment and \<open>.\<close> are skipped, and \<open>..\<close> leaves the directory
  reached so far (the root stays the root). The result is the list of names from the
  root; whether the joined text ended in \<open>/\<close> is kept apart.
\<close>

fun split_path :: "string \<Rightarrow> string list" where
  "split_path [] = [[]]"
| "split_path (c # cs) =
     (if c = CHR ''/'' then [] # split_path cs
      else (case split_path cs of
              [] \<Rightarrow> [[c]]
            | segment # segments \<Rightarrow> (c # segment) # segments))"

fun walk :: "string list \<Rightarrow> string list \<Rightarrow> string list" where
  "walk dir [] = dir"
| "walk dir (segment # segments) =
     (if segment = [] \<or> segment = ''.'' then walk dir segments
      else if segment = ''..'' then walk (butlast dir) segments
      else walk (dir @ [segment]) segments)"

definition path_join :: "string list \<Rightarrow> string list \<Rightarrow> string list" where
  "path_join dir arguments = walk dir (concat (map split_path arguments))"

definition ends_with_slash :: "string \<Rightarrow> bool" where
  "ends_with_slash joined = (joined \<noteq> [] \<and> last joined = CHR ''/'')"

text \<open>
  \<open>fs.unlink\<close> inside its \<open>try\<close>: the path may be that of the database file, which is
  then gone, or of a file of the uploads directory, which is then gone, or of something
  else (another file, a directory, nothing), which the state does not hold. A path that
  ends in \<open>/\<close> names no file. Every error is swallowed by the \<open>catch\<close>.
\<close>

definition fs_unlink :: "string list \<Rightarrow> bool \<Rightarrow> fs_state \<Rightarrow> fs_state" where
  "fs_unlink filePath trailing s =
     (if trailing then s
      else if filePath = path_join (cwd s) [''data'', ''database.json''] then s\<lparr>db := Absent\<rparr>
      else if filePath \<noteq> [] \<and> butlast filePath = path_join (cwd s) [''uploads'']
      then s\<lparr>uploads := (uploads s)(last filePath := None)\<rparr>
      else s)"

text \<open>
  The loop over \<open>reader.read()\<close>: the stream is the list of chunks it delivers before
  \<open>done\<close>, and each chunk is pushed on \<open>chunks\<close>.
\<close>

fun read_chunks :: "byte list list \<Rightarrow> byte list list \<Rightarrow> byte list list" where
  "read_chunks [] chunks = chunks"
| "read_chunks (v # rest) chunks = read_chunks rest (chunks @ [v])"

text \<open>\<open>result.set(chunk, offset)\<close>; a chunk that does not fit is a \<open>RangeError\<close>.\<close>

definition Uint8Array_set :: "byte list \<Rightarrow> byte list \<Rightarrow> nat \<Rightarrow> error + byte list" where
  "Uint8Array_set result chunk offset =
     (if offset + length chunk \<le> length result
      then Inr (take offset result @ chunk @ drop (offset + length chunk) result)
      else Inl RangeError)"

fun copy_chunks :: "byte list list \<Rightarrow> nat \<Rightarrow> byte list \<Rightarrow> error + byte list" where
  "copy_chunks [] offset result = Inr result"
| "copy_chunks (chunk # chunks) offset result =
     (case Uint8Array_set result chunk offset of
        Inl e \<Rightarrow> Inl e
      | Inr result1 \<Rightarrow> copy_chunks chunks (offset + length chunk) result1)"

definition file_buffer :: "File \<Rightarrow> error + byte list" where
  "file_buffer file =
     (case arrayBuffer file of
        Some buffer \<Rightarrow> Inr buffer
      | None \<Rightarrow>
          (case stream file of
             Some delivered \<Rightarrow>
               (let chunks = read_chunks delivered [];
                    totalLength = foldl (\<lambda>acc chunk. acc + length chunk) 0 chunks;
                    result = replicate totalLength 0
                in copy_chunks chunks 0 result)
           | None \<Rightarrow> Inl InvalidFileType))"

text \<open>
  \<open>originalName.replace(/\.ttf$/i, '')\<close>: the pattern matches at the end of the string
  only, and \<open>i\<close> lets each letter be of either case.
\<close>

definition ends_with_ttf :: "string \<Rightarrow> bool" where
  "ends_with_ttf s =
     (4 \<le> length s \<and>
      (let e = drop (length s - 4) s
       in e ! 0 = CHR ''.'' \<and>
          (e ! 1 = CHR ''t'' \<or> e ! 1 = CHR ''T'') \<and>
          (e ! 2 = CHR ''t'' \<or> e ! 2 = CHR ''T'') \<and>
          (e ! 3 = CHR ''f'' \<or> e ! 3 = CHR ''F'')))"

definition replace_ttf :: "string \<Rightarrow> string" where
  "replace_ttf s = (if ends_with_ttf s then take (length s - 4) s else s)"

text \<open>
  \<open>saveFont\<close> writes to the path it joins from the uploads directory and the new
  filename. The identifier is what \<open>uuidv4()\<close> returned, 36 characters that are
  hexadecimal digits and dashes, so that path is the file of that name in the uploads
  directory (\<open>saveFont_path\<close> below), which is where the model writes.
\<close>

definition FontService_saveFont ::
  "string \<Rightarrow> instant \<Rightarrow> File \<Rightarrow> string \<Rightarrow> fs_state \<Rightarrow> error + (Font \<times> fs_state)" where
  "FontService_saveFont uuid now file original s =
     (let new_id = uuid;
          new_filename = new_id @ ''.ttf''
      in case file_buffer file of
           Inl e \<Rightarrow> Inl e
         | Inr buffer \<Rightarrow>
             (let s1 = s\<lparr>uploads := (uploads s)(new_filename := Some buffer)\<rparr>;
                  font = \<lparr>Font.id = new_id,
                          name = replace_ttf original,
                          filename = new_filename,
                          originalName = original,
                          path = ''/uploads/'' @ new_filename,
                          uploadedAt = now\<rparr>
              in case JsonDatabase_addFont font (db s1) of
                   Inl e \<Rightarrow> Inl e
                 | Inr (u, f1) \<Rightarrow> Inr (font, s1\<lparr>db := f1\<rparr>)))"

text \<open>
  The file to remove is found by joining the stored \<open>filename\<close> to the uploads
  directory; the store is read again after the removal.
\<close>

definition FontService_deleteFont :: "string \<Rightarrow> fs_state \<Rightarrow> error + (bool \<times> fs_state)" where
  "FontService_deleteFont i s =
     (case JsonDatabase_getFontById i (db s) of
        Inl e \<Rightarrow> Inl e
      | Inr (None, f1) \<Rightarrow> Inr (False, s\<lparr>db := f1\<rparr>)
      | Inr (Some font, f1) \<Rightarrow>
          (let filePath = path_join (cwd s) [''uploads'', filename font];
               s1 = fs_unlink filePath (ends_with_slash (filename font)) (s\<lparr>db := f1\<rparr>)
           in case JsonDatabase_deleteFont i (db s1) of
                Inl e \<Rightarrow> Inl e
              | Inr (deleted, f2) \<Rightarrow> Inr (deleted, s1\<lparr>db := f2\<rparr>)))"

text \<open>
  The expression \<open>fontIds.map(id => allFonts.find(font => font.id === id)).filter(font =>
  font !== undefined)\<close> of \<open>createFontGroup\<close> and \<open>updateFontGroup\<close>.
\<close>

definition selectFonts :: "Font list \<Rightarrow> string list \<Rightarrow> Font list" where
  "selectFonts allFonts ids =
     map the (filter (\<lambda>font. font \<noteq> None)
               (map (\<lambda>i. find (\<lambda>font. Font.id font = i) allFonts) ids))"

text \<open>
  The group operations touch the database file only. \<open>now1\<close> and \<open>now2\<close> are the two
  \<open>new Date()\<close> of the object literal, in the order they are evaluated.
\<close>

definition FontService_createFontGroup ::
  "string \<Rightarrow> instant \<Rightarrow> instant \<Rightarrow> CreateFontGroupRequest \<Rightarrow> db_file
     \<Rightarrow> error + (FontGroup option \<times> db_file)" where
  "FontService_createFontGroup uuid now1 now2 request f =
     (if length (CreateFontGroupRequest.fontIds request) < 2 then Inr (None, f)
      else
        (case JsonDatabase_getAllFonts f of
           Inl e \<Rightarrow> Inl e
         | Inr (allFonts, f1) \<Rightarrow>
             (let selectedFonts = selectFonts allFonts (CreateFontGroupRequest.fontIds request)
              in if length selectedFonts \<noteq> length (CreateFontGroupRequest.fontIds request)
                 then Inr (None, f1)
                 else
                   (let fontGroup = \<lparr>FontGroup.id = uuid,
                                      name = CreateFontGroupRequest.name request,
                                      fonts = selectedFonts,
                                      createdAt = now1,
                                      updatedAt = now2\<rparr>
                    in case JsonDatabase_addFontGroup fontGroup f1 of
                         Inl e \<Rightarrow> Inl e
                       | Inr (u, f2) \<Rightarrow> Inr (Some fontGroup, f2)))))"

definition FontService_updateFontGroup ::
  "instant \<Rightarrow> UpdateFontGroupRequest \<Rightarrow> db_file \<Rightarrow> error + (FontGroup option \<times> db_file)" where
  "FontService_updateFontGroup now request f =
     (case JsonDatabase_getFontGroupById (UpdateFontGroupRequest.id request) f of
        Inl e \<Rightarrow> Inl e
      | Inr (None, f1) \<Rightarrow> Inr (None, f1)
      | Inr (Some existingGroup, f1) \<Rightarrow>
          if length (UpdateFontGroupRequest.fontIds request) < 2 then Inr (None, f1)
          else
            (case JsonDatabase_getAllFonts f1 of
               Inl e \<Rightarrow> Inl e
             | Inr (allFonts, f2) \<Rightarrow>
                 (let selectedFonts = selectFonts allFonts (UpdateFontGroupRequest.fontIds request)
                  in if length selectedFonts \<noteq> length (UpdateFontGroupRequest.fontIds request)
                     then Inr (None, f2)
                     else
                       (let updatedGroup = existingGroup
                              \<lparr>FontGroup.name := UpdateFontGroupRequest.name request,
                               FontGroup.fonts := selectedFonts,
                               updatedAt := now\<rparr>
                        in case JsonDatabase_updateFontGroup updatedGroup f2 of
                             Inl e \<Rightarrow> Inl e
                           | Inr (success, f3) \<Rightarrow>
                               Inr (if success then Some updatedGroup else None, f3)))))"

definition FontService_deleteFontGroup :: "string \<Rightarrow> db_file \<Rightarrow> error + (bool \<times> db_file)" where
  "FontService_deleteFontGroup i f = JsonDatabase_deleteFontGroup i f"

definition FontService_getAllFonts :: "db_file \<Rightarrow> error + (Font list \<times> db_file)" where
  "FontService_getAllFonts f = JsonDatabase_getAllFonts f"

definition FontService_getFontById :: "string \<Rightarrow> db_file \<Rightarrow> error + (Font option \<times> db_file)" where
  "FontService_getFontById i f = JsonDatabase_getFontById i f"

definition FontService_getAllFontGroups :: "db_file \<Rightarrow> error + (FontGroup list \<times> db_file)" where
  "FontService_getAllFontGroups f = JsonDatabase_getAllFontGroups f"

definition FontService_getFontGroupById ::
  "string \<Rightarrow> db_file \<Rightarrow> error + (FontGroup option \<times> db_file)" where
  "FontService_getFontGroupById i f = JsonDatabase_getFontGroupById i f"

text \<open>
  The methods of the service as calls, each with what it reads from outside, and the
  state a call leaves. \<open>on_db\<close> runs a method that touches the database file only.
\<close>

datatype operation =
    SaveFont string instant File string
  | GetAllFonts
  | GetFontById string
  | DeleteFont string
  | CreateFontGroup string instant instant CreateFontGroupRequest
  | GetAllFontGroups
  | GetFontGroupById string
  | UpdateFontGroup instant UpdateFontGroupRequest
  | DeleteFontGroup string

definition on_db :: "(db_file \<Rightarrow> error + ('a \<times> db_file)) \<Rightarrow> fs_state \<Rightarrow> error + fs_state" where
  "on_db method s =
     (case method (db s) of
        Inl e \<Rightarrow> Inl e
      | Inr (result, f') \<Rightarrow> Inr (s\<lparr>db := f'\<rparr>))"

fun run :: "operation \<Rightarrow> fs_state \<Rightarrow> error + fs_state" where
  "run (SaveFont uuid now file original) s =
     (case FontService_saveFont uuid now file original s of
        Inl e \<Rightarrow> Inl e
      | Inr (font, s') \<Rightarrow> Inr s')"
| "run GetAllFonts s = on_db FontService_getAllFonts s"
| "run (GetFontById i) s = on_db (FontService_getFontById i) s"
| "run (DeleteFont i) s =
     (case FontService_deleteFont i s of
        Inl e \<Rightarrow> Inl e
      | Inr (deleted, s') \<Rightarrow> Inr s')"
| "run (CreateFontGroup uuid now1 now2 request) s =
     on_db (FontService_createFontGroup uuid now1 now2 request) s"
| "run GetAllFontGroups s = on_db FontService_getAllFontGroups s"
| "run (GetFontGroupById i) s = on_db (FontService_getFontGroupById i) s"
| "run (UpdateFontGroup now request) s = on_db (FontService_updateFontGroup now request) s"
| "run (DeleteFontGroup i) s = on_db (FontService_deleteFontGroup i) s"

text \<open>
  In the states the service builds, a call throws only when \<open>saveFont\<close> refuses a file
  object, which is before its first write: the state after a call that threw is the
  state before it. \<open>replay\<close> makes the calls of a list in order, and \<open>fresh_install\<close>
  is the state before the first call, with no database file and no upload.
\<close>

definition step :: "operation \<Rightarrow> fs_state \<Rightarrow> fs_state" where
  "step op s = (case run op s of Inl e \<Rightarrow> s | Inr s' \<Rightarrow> s')"

definition replay :: "operation list \<Rightarrow> fs_state \<Rightarrow> fs_state" where
  "replay ops s = fold step ops s"

definition fresh_install :: "string list \<Rightarrow> fs_state" where
  "fresh_install dir = \<lparr>db = Absent, uploads = (\<lambda>n. None), cwd = dir\<rparr>"

text \<open>The identifiers that \<open>uuidv4()\<close> returned to the \<open>saveFont\<close> calls of a list.\<close>

fun upload_id :: "operation \<Rightarrow> string list" where
  "upload_id (SaveFont uuid now file original) = [uuid]"
| "upload_id _ = []"

definition upload_ids :: "operation list \<Rightarrow> string list" where
  "upload_ids ops = concat (map upload_id ops)"


text \<open>
  Whether a call is a \<open>deleteFont\<close> whose font has a stored \<open>filename\<close> that leads
  from the uploads directory to the database file.
\<close>

fun unlinks_database :: "string list \<Rightarrow> DatabaseData \<Rightarrow> operation \<Rightarrow> bool" where
  "unlinks_database dir data (DeleteFont i) =
     (case find (\<lambda>font. Font.id font = i) (DatabaseData.fonts data) of
        None \<Rightarrow> False
      | Some font \<Rightarrow>
          \<not> ends_with_slash (filename font) \<and>
          path_join dir [''uploads'', filename font] = path_join dir [''data'', ''database.json''])"
| "unlinks_database dir data _ = False"

section \<open>The scenario of the specification\<close>

text \<open>
  Two uploaded fonts and one group of both, as in the example of the specification;
  the identifiers have the form \<open>uuidv4()\<close> produces.
\<close>

definition arial_id :: string where
  "arial_id = ''1b9d6bcd-bbfd-4b2d-9b5d-ab8dfbbd4bed''"

definition georgia_id :: string where
  "georgia_id = ''6ec0bd7f-11c0-43da-975e-2a8ad9ebae0b''"

definition body_text_id :: string where
  "body_text_id = ''3f2504e0-4f89-41d3-9a0c-0305e82c3301''"

definition arial :: Font where
  "arial = \<lparr>Font.id = arial_id, name = ''Arial'', filename = arial_id @ ''.ttf'',
             originalName = ''Arial.ttf'', path = ''/uploads/'' @ arial_id @ ''.ttf'',
             uploadedAt = 1700000000000\<rparr>"

definition georgia :: Font where
  "georgia = \<lparr>Font.id = georgia_id, name = ''Georgia'', filename = georgia_id @ ''.ttf'',
               originalName = ''Georgia.ttf'', path = ''/uploads/'' @ georgia_id @ ''.ttf'',
               uploadedAt = 1700000001000\<rparr>"

definition body_text :: FontGroup where
  "body_text = \<lparr>FontGroup.id = body_text_id, name = ''Body Text'', fonts = [arial, georgia],
                 createdAt = 1700000002000, updatedAt = 1700000002000\<rparr>"

definition two_fonts :: DatabaseData where
  "two_fonts = \<lparr>DatabaseData.fonts = [arial, georgia], fontGroups = []\<rparr>"

definition with_group :: DatabaseData where
  "with_group = \<lparr>DatabaseData.fonts = [arial, georgia], fontGroups = [body_text]\<rparr>"

definition after_arial :: DatabaseData where
  "after_arial = \<lparr>DatabaseData.fonts = [georgia],
                   fontGroups = [body_text\<lparr>FontGroup.fonts := [georgia]\<rparr>]\<rparr>"


definition verdana_id :: string where
  "verdana_id = ''f47ac10b-58cc-4372-a567-0e02b2c3d479''"




definition disk :: "DatabaseData \<Rightarrow> fs_state" where
  "disk data = \<lparr>db = Parses (DatabaseData_json data), uploads = (\<lambda>n. None),
               cwd = [''srv'', ''fonts'']\<rparr>"

definition upload :: File where
  "upload = \<lparr>arrayBuffer = None, stream = Some [[0, 1, 0, 0], [], [0, 12]]\<rparr>"

section \<open>Round trip of the typed document\<close>

lemma as_Font_json: "as_Font (Font_json font) = Some font"
  by (simp add: as_Font_def Font_json_def)

lemma those_as_Font: "those (map (as_Font \<circ> Font_json) fs) = Some fs"
  by (induction fs) (simp_all add: as_Font_json)

lemma as_Fonts_json: "as_Fonts (JArr (map Font_json fs)) = Some fs"
  by (simp add: as_Fonts_def those_as_Font)

lemma as_FontGroup_json: "as_FontGroup (FontGroup_json g) = Some g"
  by (simp add: as_FontGroup_def FontGroup_json_def as_Fonts_json)

lemma those_as_FontGroup: "those (map (as_FontGroup \<circ> FontGroup_json) gs) = Some gs"
  by (induction gs) (simp_all add: as_FontGroup_json)

lemma as_DatabaseData_json: "as_DatabaseData (DatabaseData_json data) = Some data"
  by (simp add: as_DatabaseData_def DatabaseData_json_def as_Fonts_json those_as_FontGroup)

text \<open>
  A typed document comes back from its own text as it was: it holds strings and ISO
  strings only, in arrays and objects. A \<open>Date\<close> in the place of a timestamp gives the
  same text as the ISO string the typed layer holds there.
\<close>

lemma stringify_Date: "JSON_stringify (JDate t) = JSON_stringify (JIso t)"
  by simp

lemma reparse_Font: "JSON_parse (JSON_stringify (Font_json font)) = Font_json font"
  by (simp add: Font_json_def)

lemma reparse_Fonts:
  "map (JSON_parse \<circ> JSON_stringify) (map Font_json fs) = map Font_json fs"
  by (induction fs) (simp_all add: reparse_Font)

lemma reparse_FontGroup: "JSON_parse (JSON_stringify (FontGroup_json g)) = FontGroup_json g"
  using reparse_Fonts[of "FontGroup.fonts g"] by (simp add: FontGroup_json_def comp_def)

lemma reparse_FontGroups:
  "map (JSON_parse \<circ> JSON_stringify) (map FontGroup_json gs) = map FontGroup_json gs"
  by (induction gs) (simp_all add: reparse_FontGroup)

lemma reparse_DatabaseData:
  "JSON_parse (JSON_stringify (DatabaseData_json data)) = DatabaseData_json data"
  using reparse_Fonts[of "DatabaseData.fonts data"] reparse_FontGroups[of "fontGroups data"]
  by (simp add: DatabaseData_json_def comp_def)

lemma ensureDatabase_cases:
  "ensureDatabase f = (case f of Absent \<Rightarrow> Parses (DatabaseData_json initialData) | _ \<Rightarrow> f)"
  by (cases f) (simp_all add: ensureDatabase_def reparse_DatabaseData)

section \<open>findIndex, find and splice\<close>

lemma findIndex_ge: "- 1 \<le> findIndex P xs"
  by (induction xs) (auto simp: Let_def)

lemma findIndex_none: "findIndex P xs = - 1 \<longleftrightarrow> (\<forall>x \<in> set xs. \<not> P x)"
proof (induction xs)
  case Nil
  show ?case by simp
next
  case (Cons x xs)
  have "- 1 \<le> findIndex P xs" by (rule findIndex_ge)
  then have "findIndex P xs + 1 \<noteq> - 1" by arith
  with Cons show ?case by (auto simp: Let_def)
qed

lemma findIndex_some:
  "findIndex P xs \<noteq> - 1 \<Longrightarrow>
     0 \<le> findIndex P xs \<and> nat (findIndex P xs) < length xs \<and> P (xs ! nat (findIndex P xs)) \<and>
     (\<forall>j < nat (findIndex P xs). \<not> P (xs ! j))"
proof (induction xs)
  case Nil
  then show ?case by simp
next
  case (Cons x xs)
  show ?case
  proof (cases "P x")
    case True
    then show ?thesis by simp
  next
    case False
    with Cons.prems have ne: "findIndex P xs \<noteq> - 1" by (auto simp: Let_def split: if_splits)
    from Cons.IH[OF ne] have ih: "0 \<le> findIndex P xs" "nat (findIndex P xs) < length xs"
      "P (xs ! nat (findIndex P xs))" "\<forall>j < nat (findIndex P xs). \<not> P (xs ! j)" by auto
    have eq: "findIndex P (x # xs) = findIndex P xs + 1" using False ne by (simp add: Let_def)
    have nat_eq: "nat (findIndex P xs + 1) = Suc (nat (findIndex P xs))" using ih(1) by simp
    show ?thesis unfolding eq nat_eq using ih False
      by (auto simp: nth_Cons split: nat.splits)
  qed
qed

lemma find_findIndex_None: "find P xs = None \<longleftrightarrow> findIndex P xs = - 1"
  by (auto simp: find_None_iff findIndex_none)

lemma find_findIndex_Some:
  "find P xs = Some x \<Longrightarrow> findIndex P xs \<noteq> - 1 \<and> xs ! nat (findIndex P xs) = x"
proof (induction xs)
  case Nil
  then show ?case by simp
next
  case (Cons y ys)
  show ?case
  proof (cases "P y")
    case True
    with Cons.prems show ?thesis by simp
  next
    case False
    with Cons.prems have f: "find P ys = Some x" by simp
    from Cons.IH[OF f] have ne: "findIndex P ys \<noteq> - 1" and nth: "ys ! nat (findIndex P ys) = x"
      by auto
    have ge: "0 \<le> findIndex P ys" using findIndex_ge[of P ys] ne by arith
    have nat_eq: "nat (findIndex P ys + 1) = Suc (nat (findIndex P ys))" using ge by simp
    show ?thesis using False ne nth ge nat_eq by (simp add: Let_def)
  qed
qed

lemma splice_one:
  "0 \<le> k \<Longrightarrow> nat k < length xs \<Longrightarrow>
     Array_splice xs k (Suc 0) = take (nat k) xs @ drop (Suc (nat k)) xs"
proof -
  assume a: "0 \<le> k" "nat k < length xs"
  then have "min k (int (length xs)) = k" by arith
  with a show ?thesis by (simp add: Array_splice_def Let_def)
qed

section \<open>The database file under read and write\<close>

lemma read_snd: "snd (JsonDatabase_read f) = ensureDatabase f"
  by (cases f) (simp_all add: JsonDatabase_read_def ensureDatabase_cases)

lemma read_ensure: "JsonDatabase_read (ensureDatabase f) = JsonDatabase_read f"
  by (cases f) (simp_all add: JsonDatabase_read_def ensureDatabase_cases)

lemma ensure_not_Absent: "f \<noteq> Absent \<Longrightarrow> ensureDatabase f = f"
  by (cases f) (simp_all add: ensureDatabase_cases)

lemma read_data_file: "read_data f = Inr (data, f1) \<Longrightarrow> f1 = ensureDatabase f"
  by (auto simp: read_data_def read_snd[symmetric] split: prod.splits option.splits)

lemma read_data_ensure: "read_data (ensureDatabase f) = read_data f"
  by (simp add: read_data_def read_ensure)

lemma read_data_again: "read_data f = Inr (data, f1) \<Longrightarrow> read_data f1 = Inr (data, f1)"
  using read_data_file[of f data f1] read_data_ensure[of f] by simp

lemma read_data_write_data: "read_data (write_data data f) = Inr (data, write_data data f)"
  by (simp add: read_data_def write_data_def JsonDatabase_write_def JsonDatabase_read_def
      ensureDatabase_cases as_DatabaseData_json reparse_DatabaseData)

lemma write_data_eq: "write_data data f = Parses (DatabaseData_json data)"
  by (simp add: write_data_def JsonDatabase_write_def reparse_DatabaseData)

text \<open>
  C7, as the code has it. \<open>read\<close> returns a value for every state of the file: the
  initial document when the file is absent (and the file then holds it) or does not
  parse (and the file is left as it is), and otherwise the parsed value itself, whatever
  its shape. So the value returned is a full \<open>{fonts, fontGroups}\<close> document exactly
  when the file is absent, is unparseable, or holds such a document.
\<close>

theorem read_returns_parsed_or_initial:
  "JsonDatabase_read f =
     (case f of
        Absent \<Rightarrow> (DatabaseData_json initialData, Parses (DatabaseData_json initialData))
      | Unparseable t \<Rightarrow> (DatabaseData_json initialData, f)
      | Parses parsed \<Rightarrow> (parsed, f)) \<and>
   as_DatabaseData (fst (JsonDatabase_read f)) =
     (case f of Parses parsed \<Rightarrow> as_DatabaseData parsed | _ \<Rightarrow> Some initialData)"
  by (cases f) (simp_all add: JsonDatabase_read_def ensureDatabase_cases as_DatabaseData_json)

text \<open>
  C7, as stated, fails: a file that holds the text \<open>{}\<close> parses, and \<open>read\<close> returns
  the empty object, which has neither \<open>fonts\<close> nor \<open>fontGroups\<close>.
\<close>

theorem read_not_always_document:
  "as_DatabaseData (fst (JsonDatabase_read (Parses (JObj [])))) = None"
  by (simp add: JsonDatabase_read_def ensureDatabase_cases as_DatabaseData_def)




lemma jobj_Some: "jobj v = Some members \<Longrightarrow> v = JObj members"
  by (cases v) simp_all









section \<open>What the store methods return on a typed document\<close>

lemma ensureDatabase_idem: "ensureDatabase (ensureDatabase f) = ensureDatabase f"
  by (cases f) (simp_all add: ensureDatabase_cases)

lemma read_data_ensured:
  "read_data f = Inr (data, f1) \<Longrightarrow> read_data (ensureDatabase f) = Inr (data, ensureDatabase f)"
  using read_data_again[of f data f1] read_data_file[of f data f1] by simp

lemma read_data_Parses:
  "read_data (Parses (DatabaseData_json data)) = Inr (data, Parses (DatabaseData_json data))"
  using read_data_write_data[of data Absent] by (simp add: write_data_eq)

lemma read_data_disk: "read_data (db (disk data)) = Inr (data, db (disk data))"
  by (simp add: disk_def read_data_Parses)

lemma find_Some_iff_id:
  "find (\<lambda>font. Font.id font = i) fs \<noteq> None \<longleftrightarrow> i \<in> Font.id ` set fs"
  by (auto simp: find_None_iff)

lemma getAllFonts_eq:
  "read_data f = Inr (data, f1) \<Longrightarrow>
     JsonDatabase_getAllFonts f = Inr (DatabaseData.fonts data, ensureDatabase f)"
  using read_data_file[of f data f1] by (simp add: JsonDatabase_getAllFonts_def)

lemma getFontGroupById_eq:
  "read_data f = Inr (data, f1) \<Longrightarrow>
     JsonDatabase_getFontGroupById i f =
       Inr (find (\<lambda>group. FontGroup.id group = i) (fontGroups data), ensureDatabase f)"
  using read_data_file[of f data f1] by (simp add: JsonDatabase_getFontGroupById_def)

lemma getFontById_eq:
  "read_data f = Inr (data, f1) \<Longrightarrow>
     JsonDatabase_getFontById i f =
       Inr (find (\<lambda>font. Font.id font = i) (DatabaseData.fonts data), ensureDatabase f)"
  using read_data_file[of f data f1] by (simp add: JsonDatabase_getFontById_def)

lemma addFont_eq:
  "read_data f = Inr (data, f1) \<Longrightarrow>
     JsonDatabase_addFont font f =
       Inr ((), write_data (data\<lparr>DatabaseData.fonts := DatabaseData.fonts data @ [font]\<rparr>)
                  (ensureDatabase f))"
  using read_data_file[of f data f1] by (simp add: JsonDatabase_addFont_def)

lemma addFontGroup_eq:
  "read_data f = Inr (data, f1) \<Longrightarrow>
     JsonDatabase_addFontGroup g f =
       Inr ((), write_data (data\<lparr>fontGroups := fontGroups data @ [g]\<rparr>) (ensureDatabase f))"
  using read_data_file[of f data f1] by (simp add: JsonDatabase_addFontGroup_def)

lemma JsonDatabase_deleteFont_absent:
  assumes "read_data f = Inr (data, f1)" "i \<notin> Font.id ` set (DatabaseData.fonts data)"
  shows "JsonDatabase_deleteFont i f = Inr (False, ensureDatabase f)"
proof -
  have "findIndex (\<lambda>font. Font.id font = i) (DatabaseData.fonts data) = - 1"
    using assms(2) by (auto simp: findIndex_none)
  then show ?thesis using assms(1) read_data_file[OF assms(1)]
    by (simp add: JsonDatabase_deleteFont_def)
qed

lemma JsonDatabase_deleteFontGroup_absent:
  assumes "read_data f = Inr (data, f1)" "i \<notin> FontGroup.id ` set (fontGroups data)"
  shows "JsonDatabase_deleteFontGroup i f = Inr (False, ensureDatabase f)"
proof -
  have "findIndex (\<lambda>group. FontGroup.id group = i) (fontGroups data) = - 1"
    using assms(2) by (auto simp: findIndex_none)
  then show ?thesis using assms(1) read_data_file[OF assms(1)]
    by (simp add: JsonDatabase_deleteFontGroup_def)
qed

text \<open>
  The document \<open>deleteFont\<close> writes when the id is found: the font at the first index
  with that id is cut out, and every group keeps all but its snapshots with that id.
\<close>

lemma JsonDatabase_deleteFont_present:
  assumes rd: "read_data f = Inr (data, f0)"
      and mem: "i \<in> Font.id ` set (DatabaseData.fonts data)"
  shows "\<exists>k. k < length (DatabaseData.fonts data) \<and>
             Font.id (DatabaseData.fonts data ! k) = i \<and>
             (\<forall>j < k. Font.id (DatabaseData.fonts data ! j) \<noteq> i) \<and>
             JsonDatabase_deleteFont i f =
               Inr (True, Parses (DatabaseData_json
                 (data\<lparr>DatabaseData.fonts :=
                          take k (DatabaseData.fonts data) @ drop (Suc k) (DatabaseData.fonts data),
                        fontGroups :=
                          map (\<lambda>group. group\<lparr>FontGroup.fonts :=
                                 filter (\<lambda>font. Font.id font \<noteq> i) (FontGroup.fonts group)\<rparr>)
                              (fontGroups data)\<rparr>)))"
proof -
  let ?P = "\<lambda>font. Font.id font = i"
  let ?fs = "DatabaseData.fonts data"
  define k where "k = nat (findIndex ?P ?fs)"
  have ne: "findIndex ?P ?fs \<noteq> - 1" using mem by (auto simp: findIndex_none)
  from findIndex_some[OF ne] have k: "0 \<le> findIndex ?P ?fs" "k < length ?fs"
    "Font.id (?fs ! k) = i" "\<forall>j < k. Font.id (?fs ! j) \<noteq> i" by (auto simp: k_def)
  have sp: "Array_splice ?fs (findIndex ?P ?fs) (Suc 0) = take k ?fs @ drop (Suc k) ?fs"
    using splice_one[OF k(1)] k(2) by (simp add: k_def)
  have "JsonDatabase_deleteFont i f =
               Inr (True, Parses (DatabaseData_json
                 (data\<lparr>DatabaseData.fonts := take k ?fs @ drop (Suc k) ?fs,
                        fontGroups :=
                          map (\<lambda>group. group\<lparr>FontGroup.fonts :=
                                 filter (\<lambda>font. Font.id font \<noteq> i) (FontGroup.fonts group)\<rparr>)
                              (fontGroups data)\<rparr>)))"
    using rd ne by (simp add: JsonDatabase_deleteFont_def Let_def write_data_eq sp)
  with k show ?thesis by blast
qed

lemma JsonDatabase_updateFontGroup_found:
  assumes rd: "read_data f = Inr (data, f0)"
      and fnd: "find (\<lambda>group. FontGroup.id group = FontGroup.id ug) (fontGroups data) = Some existing"
  shows "JsonDatabase_updateFontGroup ug f =
           Inr (True, write_data
                  (data\<lparr>fontGroups := (fontGroups data)
                      [nat (findIndex (\<lambda>group. FontGroup.id group = FontGroup.id ug) (fontGroups data)) := ug]\<rparr>)
                  (ensureDatabase f))"
  using find_findIndex_Some[OF fnd] rd read_data_file[OF rd]
  by (simp add: JsonDatabase_updateFontGroup_def)

lemma remove_first_distinct:
  "distinct (map h xs) \<Longrightarrow> k < length xs \<Longrightarrow> h (xs ! k) = i \<Longrightarrow>
     take k xs @ drop (Suc k) xs = filter (\<lambda>x. h x \<noteq> i) xs"
proof (induction xs arbitrary: k)
  case Nil
  then show ?case by simp
next
  case (Cons x xs)
  show ?case
  proof (cases k)
    case 0
    with Cons.prems have "h x = i" "h x \<notin> h ` set xs" by auto
    then have "\<forall>y \<in> set xs. h y \<noteq> i" by (metis imageI)
    then have "filter (\<lambda>y. h y \<noteq> i) xs = xs" by (simp only: filter_id_conv)
    with 0 \<open>h x = i\<close> show ?thesis by simp
  next
    case (Suc m)
    with Cons.prems have m: "m < length xs" "h (xs ! m) = i" "distinct (map h xs)" by auto
    from Cons.prems Suc m have "h x \<noteq> i" by auto
    with Cons.IH[OF m(3) m(1) m(2)] Suc show ?thesis by simp
  qed
qed

section \<open>Selecting the fonts of a request\<close>

lemma length_filter_all: "length (filter P xs) = length xs \<longleftrightarrow> (\<forall>x \<in> set xs. P x)"
proof (induction xs)
  case Nil
  show ?case by simp
next
  case (Cons x xs)
  have "length (filter P xs) \<le> length xs" by (rule length_filter_le)
  then have "length (filter P xs) \<noteq> Suc (length xs)" by arith
  with Cons show ?case by auto
qed

lemma selectFonts_length:
  "length (selectFonts allFonts ids) = length ids \<longleftrightarrow> set ids \<subseteq> Font.id ` set allFonts"
proof -
  have "length (selectFonts allFonts ids) =
        length (filter (\<lambda>font. font \<noteq> None) (map (\<lambda>i. find (\<lambda>font. Font.id font = i) allFonts) ids))"
    by (simp add: selectFonts_def)
  moreover have "length (map (\<lambda>i. find (\<lambda>font. Font.id font = i) allFonts) ids) = length ids"
    by simp
  ultimately have "length (selectFonts allFonts ids) = length ids \<longleftrightarrow>
     (\<forall>x \<in> set (map (\<lambda>i. find (\<lambda>font. Font.id font = i) allFonts) ids). x \<noteq> None)"
    using length_filter_all[of "\<lambda>font. font \<noteq> None"
        "map (\<lambda>i. find (\<lambda>font. Font.id font = i) allFonts) ids"] by simp
  also have "\<dots> \<longleftrightarrow> (\<forall>i \<in> set ids. i \<in> Font.id ` set allFonts)"
    using find_Some_iff_id[of _ allFonts] by auto
  finally show ?thesis by auto
qed

lemma selectFonts_all_found:
  assumes "set ids \<subseteq> Font.id ` set allFonts"
  shows "selectFonts allFonts ids = map (\<lambda>i. the (find (\<lambda>font. Font.id font = i) allFonts)) ids"
proof -
  have "\<forall>x \<in> set (map (\<lambda>i. find (\<lambda>font. Font.id font = i) allFonts) ids). x \<noteq> None"
    using assms find_Some_iff_id[of _ allFonts] by auto
  then have "filter (\<lambda>font. font \<noteq> None) (map (\<lambda>i. find (\<lambda>font. Font.id font = i) allFonts) ids)
           = map (\<lambda>i. find (\<lambda>font. Font.id font = i) allFonts) ids"
    by (simp only: filter_id_conv)
  then show ?thesis by (simp add: selectFonts_def comp_def)
qed

lemma createFontGroup_unknown:
  assumes rd: "read_data f = Inr (data, f0)"
      and unk: "\<not> set (CreateFontGroupRequest.fontIds request) \<subseteq> Font.id ` set (DatabaseData.fonts data)"
  shows "FontService_createFontGroup uuid now1 now2 request f = Inr (None, f) \<or>
         FontService_createFontGroup uuid now1 now2 request f = Inr (None, ensureDatabase f)"
  using unk selectFonts_length[of "DatabaseData.fonts data" "CreateFontGroupRequest.fontIds request"]
  by (simp add: FontService_createFontGroup_def getAllFonts_eq[OF rd])

lemma updateFontGroup_unknown:
  assumes rd: "read_data f = Inr (data, f0)"
      and unk: "\<not> set (UpdateFontGroupRequest.fontIds request) \<subseteq> Font.id ` set (DatabaseData.fonts data)"
  shows "FontService_updateFontGroup now request f = Inr (None, ensureDatabase f)"
  using unk selectFonts_length[of "DatabaseData.fonts data" "UpdateFontGroupRequest.fontIds request"]
  by (simp add: FontService_updateFontGroup_def getFontGroupById_eq[OF rd]
      getAllFonts_eq[OF read_data_ensured[OF rd]] ensureDatabase_idem
      split: option.splits)

section \<open>The bytes of an upload\<close>

lemma read_chunks_eq: "read_chunks delivered chunks = chunks @ delivered"
  by (induction delivered arbitrary: chunks) simp_all

lemma totalLength_eq: "foldl (\<lambda>acc chunk. acc + length chunk) a chunks = a + length (concat chunks)"
  by (induction chunks arbitrary: a) simp_all

text \<open>
  The copy loop fills the buffer from \<open>offset\<close> on with the chunks in order and never
  leaves the buffer, provided the chunks fit behind \<open>offset\<close>.
\<close>

lemma copy_chunks_eq:
  "offset + length (concat chunks) \<le> length result \<Longrightarrow>
     copy_chunks chunks offset result =
       Inr (take offset result @ concat chunks @ drop (offset + length (concat chunks)) result)"
proof (induction chunks arbitrary: offset result)
  case Nil
  then show ?case by simp
next
  case (Cons chunk chunks)
  let ?r1 = "take offset result @ chunk @ drop (offset + length chunk) result"
  have fits: "offset + length chunk \<le> length result" using Cons.prems by simp
  then have set: "Uint8Array_set result chunk offset = Inr ?r1" by (simp add: Uint8Array_set_def)
  have len1: "length ?r1 = length result" using fits by simp
  have pre: "(offset + length chunk) + length (concat chunks) \<le> length ?r1"
    using Cons.prems len1 by simp
  have tk: "take (offset + length chunk) ?r1 = take offset result @ chunk" using fits by simp
  have dr: "drop (offset + length chunk + length (concat chunks)) ?r1
              = drop (offset + length chunk + length (concat chunks)) result"
    using fits by (simp add: add.commute add.left_commute)
  show ?case using Cons.IH[OF pre] set tk dr by (simp add: add.assoc)
qed

lemma file_buffer_stream:
  "arrayBuffer file = None \<Longrightarrow> stream file = Some delivered \<Longrightarrow>
     file_buffer file = Inr (concat delivered)"
  using copy_chunks_eq[of 0 delivered "replicate (length (concat delivered)) 0"]
  by (simp add: file_buffer_def read_chunks_eq totalLength_eq Let_def)

lemma ids_distinct: "arial_id \<noteq> georgia_id" "georgia_id \<noteq> arial_id"
  by (simp_all add: arial_id_def georgia_id_def)

section \<open>Claims about rejected requests\<close>

text \<open>
  C1, at the input where the code departs from it. \<open>createFontGroup\<close> and
  \<open>updateFontGroup\<close> count the ids of the request, not the distinct ones: a request
  that names Arial twice references one font, and it is accepted. The group is stored with
  two snapshots of the same font.
\<close>

theorem createFontGroup_accepts_repeated_id:
  "length (remdups [arial_id, arial_id]) = 1 \<and>
   FontService_createFontGroup body_text_id 1700000002000 1700000002000
       \<lparr>CreateFontGroupRequest.name = ''Body Text'', fontIds = [arial_id, arial_id]\<rparr>
       (Parses (DatabaseData_json two_fonts))
     = Inr (Some (body_text\<lparr>FontGroup.fonts := [arial, arial]\<rparr>),
            Parses (DatabaseData_json
              (two_fonts\<lparr>fontGroups := [body_text\<lparr>FontGroup.fonts := [arial, arial]\<rparr>]\<rparr>))) \<and>
   FontService_updateFontGroup 1700000003000
       \<lparr>UpdateFontGroupRequest.id = body_text_id, name = ''Body Text'',
        fontIds = [arial_id, arial_id]\<rparr>
       (Parses (DatabaseData_json with_group))
     = Inr (Some (body_text\<lparr>FontGroup.fonts := [arial, arial], updatedAt := 1700000003000\<rparr>),
            Parses (DatabaseData_json
              (with_group\<lparr>fontGroups :=
                 [body_text\<lparr>FontGroup.fonts := [arial, arial], updatedAt := 1700000003000\<rparr>]\<rparr>)))"
proof -
  have sel: "selectFonts [arial, georgia] [arial_id, arial_id] = [arial, arial]"
    by (simp add: selectFonts_def arial_def)
  have c: "FontService_createFontGroup body_text_id 1700000002000 1700000002000
       \<lparr>CreateFontGroupRequest.name = ''Body Text'', fontIds = [arial_id, arial_id]\<rparr>
       (Parses (DatabaseData_json two_fonts))
     = Inr (Some (body_text\<lparr>FontGroup.fonts := [arial, arial]\<rparr>),
            Parses (DatabaseData_json
              (two_fonts\<lparr>fontGroups := [body_text\<lparr>FontGroup.fonts := [arial, arial]\<rparr>]\<rparr>)))"
    using sel
    by (simp add: FontService_createFontGroup_def getAllFonts_eq[OF read_data_Parses]
        addFontGroup_eq[OF read_data_Parses] ensureDatabase_cases write_data_eq
        two_fonts_def body_text_def Let_def)
  have fnd: "find (\<lambda>group. FontGroup.id group = body_text_id) (fontGroups with_group) = Some body_text"
    by (simp add: with_group_def body_text_def)
  have u: "FontService_updateFontGroup 1700000003000
       \<lparr>UpdateFontGroupRequest.id = body_text_id, name = ''Body Text'',
        fontIds = [arial_id, arial_id]\<rparr>
       (Parses (DatabaseData_json with_group))
     = Inr (Some (body_text\<lparr>FontGroup.fonts := [arial, arial], updatedAt := 1700000003000\<rparr>),
            Parses (DatabaseData_json
              (with_group\<lparr>fontGroups :=
                 [body_text\<lparr>FontGroup.fonts := [arial, arial], updatedAt := 1700000003000\<rparr>]\<rparr>)))"
    using sel fnd
    by (simp add: FontService_updateFontGroup_def getFontGroupById_eq[OF read_data_Parses]
        getAllFonts_eq[OF read_data_Parses] JsonDatabase_updateFontGroup_def read_data_Parses
        ensureDatabase_cases write_data_eq with_group_def body_text_def Let_def)
  show ?thesis using c u by simp
qed

text \<open>
  C2: when a request names an id that no stored font has, \<open>createFontGroup\<close> and
  \<open>updateFontGroup\<close> return \<open>null\<close>, and a later \<open>read\<close> returns what it returned
  before; a file that existed is left exactly as it was. (An absent file is created
  with the initial document by the first read of the call.)
\<close>

theorem unknown_font_id_rejected:
  assumes "read_data f = Inr (data, f0)"
      and "i \<notin> Font.id ` set (DatabaseData.fonts data)"
  shows "(i \<in> set (CreateFontGroupRequest.fontIds creq) \<longrightarrow>
            (\<exists>f'. FontService_createFontGroup uuid now1 now2 creq f = Inr (None, f') \<and>
                  JsonDatabase_read f' = JsonDatabase_read f \<and> (f \<noteq> Absent \<longrightarrow> f' = f))) \<and>
         (i \<in> set (UpdateFontGroupRequest.fontIds ureq) \<longrightarrow>
            (\<exists>f'. FontService_updateFontGroup now ureq f = Inr (None, f') \<and>
                  JsonDatabase_read f' = JsonDatabase_read f \<and> (f \<noteq> Absent \<longrightarrow> f' = f)))"
proof (intro conjI impI)
  assume "i \<in> set (CreateFontGroupRequest.fontIds creq)"
  with assms(2) have "\<not> set (CreateFontGroupRequest.fontIds creq) \<subseteq> Font.id ` set (DatabaseData.fonts data)"
    by auto
  from createFontGroup_unknown[OF assms(1) this, of uuid now1 now2]
  show "\<exists>f'. FontService_createFontGroup uuid now1 now2 creq f = Inr (None, f') \<and>
             JsonDatabase_read f' = JsonDatabase_read f \<and> (f \<noteq> Absent \<longrightarrow> f' = f)"
    using read_ensure[of f] ensure_not_Absent[of f] by auto
next
  assume "i \<in> set (UpdateFontGroupRequest.fontIds ureq)"
  with assms(2) have "\<not> set (UpdateFontGroupRequest.fontIds ureq) \<subseteq> Font.id ` set (DatabaseData.fonts data)"
    by auto
  from updateFontGroup_unknown[OF assms(1) this, of now]
  show "\<exists>f'. FontService_updateFontGroup now ureq f = Inr (None, f') \<and>
             JsonDatabase_read f' = JsonDatabase_read f \<and> (f \<noteq> Absent \<longrightarrow> f' = f)"
    using read_ensure[of f] ensure_not_Absent[of f] by auto
qed

theorem unknown_font_id_rejected_witness:
  "read_data (Parses (DatabaseData_json with_group))
     = Inr (with_group, Parses (DatabaseData_json with_group)) \<and>
   body_text_id \<notin> Font.id ` set (DatabaseData.fonts with_group) \<and>
   FontService_createFontGroup ''new-group'' 1700000004000 1700000004000
       \<lparr>CreateFontGroupRequest.name = ''Headings'', fontIds = [arial_id, body_text_id]\<rparr>
       (Parses (DatabaseData_json with_group))
     = Inr (None, Parses (DatabaseData_json with_group)) \<and>
   FontService_updateFontGroup 1700000004000
       \<lparr>UpdateFontGroupRequest.id = body_text_id, name = ''Headings'',
        fontIds = [arial_id, body_text_id]\<rparr>
       (Parses (DatabaseData_json with_group))
     = Inr (None, Parses (DatabaseData_json with_group))"
proof -
  have h1: "read_data (Parses (DatabaseData_json with_group))
     = Inr (with_group, Parses (DatabaseData_json with_group))" by (rule read_data_Parses)
  have h2: "body_text_id \<notin> Font.id ` set (DatabaseData.fonts with_group)"
    by (simp add: with_group_def arial_def georgia_def body_text_id_def arial_id_def georgia_id_def)
  show ?thesis
    using h1 h2
      unknown_font_id_rejected[OF h1 h2,
        of "\<lparr>CreateFontGroupRequest.name = ''Headings'', fontIds = [arial_id, body_text_id]\<rparr>"
           "''new-group''" 1700000004000 1700000004000
           "\<lparr>UpdateFontGroupRequest.id = body_text_id, name = ''Headings'',
             fontIds = [arial_id, body_text_id]\<rparr>" 1700000004000]
    by auto
qed

text \<open>
  C8: deleting an id that is not in the store returns \<open>false\<close>, for fonts and for
  groups, at the store and at the service. The document read afterwards is the one read
  before, an existing file and the uploads are untouched, and the same call on the
  resulting state returns \<open>false\<close> again and changes nothing.
\<close>

theorem delete_missing_id:
  assumes "read_data (db s) = Inr (data, f0)"
  shows "(i \<notin> Font.id ` set (DatabaseData.fonts data) \<longrightarrow>
            (\<exists>s'. FontService_deleteFont i s = Inr (False, s') \<and>
                  JsonDatabase_deleteFont i (db s) = Inr (False, db s') \<and>
                  read_data (db s') = Inr (data, db s') \<and>
                  uploads s' = uploads s \<and>
                  (db s \<noteq> Absent \<longrightarrow> s' = s) \<and>
                  FontService_deleteFont i s' = Inr (False, s'))) \<and>
         (i \<notin> FontGroup.id ` set (fontGroups data) \<longrightarrow>
            (\<exists>f'. FontService_deleteFontGroup i (db s) = Inr (False, f') \<and>
                  JsonDatabase_deleteFontGroup i (db s) = Inr (False, f') \<and>
                  read_data f' = Inr (data, f') \<and>
                  (db s \<noteq> Absent \<longrightarrow> f' = db s) \<and>
                  FontService_deleteFontGroup i f' = Inr (False, f')))"
proof (intro conjI impI)
  let ?f' = "ensureDatabase (db s)"
  let ?s' = "s\<lparr>db := ?f'\<rparr>"
  have rd': "read_data ?f' = Inr (data, ?f')" by (rule read_data_ensured[OF assms])
  {
    assume no: "i \<notin> Font.id ` set (DatabaseData.fonts data)"
    then have none: "find (\<lambda>font. Font.id font = i) (DatabaseData.fonts data) = None"
      using find_Some_iff_id[of i "DatabaseData.fonts data"] by simp
    have a: "FontService_deleteFont i s = Inr (False, ?s')"
      using none by (simp add: FontService_deleteFont_def getFontById_eq[OF assms])
    have b: "FontService_deleteFont i ?s' = Inr (False, ?s')"
      using none by (simp add: FontService_deleteFont_def getFontById_eq[of ?f', OF rd']
          ensureDatabase_idem)
    have c: "JsonDatabase_deleteFont i (db s) = Inr (False, db ?s')"
      using JsonDatabase_deleteFont_absent[OF assms no] by simp
    have d: "db s \<noteq> Absent \<longrightarrow> ?s' = s" using ensure_not_Absent[of "db s"] by auto
    show "\<exists>s'. FontService_deleteFont i s = Inr (False, s') \<and>
                  JsonDatabase_deleteFont i (db s) = Inr (False, db s') \<and>
                  read_data (db s') = Inr (data, db s') \<and>
                  uploads s' = uploads s \<and>
                  (db s \<noteq> Absent \<longrightarrow> s' = s) \<and>
                  FontService_deleteFont i s' = Inr (False, s')"
      using a b c d rd' by (intro exI[of _ ?s']) simp
  }
  {
    assume no: "i \<notin> FontGroup.id ` set (fontGroups data)"
    have a: "JsonDatabase_deleteFontGroup i (db s) = Inr (False, ?f')"
      by (rule JsonDatabase_deleteFontGroup_absent[OF assms no])
    have b: "JsonDatabase_deleteFontGroup i ?f' = Inr (False, ?f')"
      using JsonDatabase_deleteFontGroup_absent[OF rd' no] by (simp add: ensureDatabase_idem)
    show "\<exists>f'. FontService_deleteFontGroup i (db s) = Inr (False, f') \<and>
                  JsonDatabase_deleteFontGroup i (db s) = Inr (False, f') \<and>
                  read_data f' = Inr (data, f') \<and>
                  (db s \<noteq> Absent \<longrightarrow> f' = db s) \<and>
                  FontService_deleteFontGroup i f' = Inr (False, f')"
      using a b rd' ensure_not_Absent[of "db s"]
      by (intro exI[of _ ?f']) (simp add: FontService_deleteFontGroup_def)
  }
qed

theorem delete_missing_id_witness:
  "read_data (db (disk with_group)) = Inr (with_group, db (disk with_group)) \<and>
   ''no-such-id'' \<notin> Font.id ` set (DatabaseData.fonts with_group) \<and>
   ''no-such-id'' \<notin> FontGroup.id ` set (fontGroups with_group) \<and>
   db (disk with_group) \<noteq> Absent \<and>
   FontService_deleteFont ''no-such-id'' (disk with_group) = Inr (False, disk with_group) \<and>
   JsonDatabase_deleteFont ''no-such-id'' (db (disk with_group))
     = Inr (False, db (disk with_group)) \<and>
   FontService_deleteFontGroup ''no-such-id'' (db (disk with_group))
     = Inr (False, db (disk with_group)) \<and>
   JsonDatabase_deleteFontGroup ''no-such-id'' (db (disk with_group))
     = Inr (False, db (disk with_group))"
proof -
  have h: "read_data (db (disk with_group)) = Inr (with_group, db (disk with_group))"
    by (rule read_data_disk)
  have n1: "''no-such-id'' \<notin> Font.id ` set (DatabaseData.fonts with_group)"
    by (simp add: with_group_def arial_def georgia_def arial_id_def georgia_id_def)
  have n2: "''no-such-id'' \<notin> FontGroup.id ` set (fontGroups with_group)"
    by (simp add: with_group_def body_text_def body_text_id_def)
  have n3: "db (disk with_group) \<noteq> Absent" by (simp add: disk_def)
  show ?thesis
    using h n1 n2 n3 delete_missing_id[OF h, of "''no-such-id''"]
    by auto
qed

section \<open>Claims about deleting a font\<close>

text \<open>
  C3: for an id that a stored font has, \<open>deleteFont\<close> of the store returns \<open>true\<close> and
  writes a document in which the first font with that id is gone and every other font
  is kept in place (with distinct ids, the list is the old one without the fonts of
  that id); the groups are the same in number and order, each one unchanged but for its
  \<open>fonts\<close>, which keep exactly the snapshots with another id.
\<close>

theorem deleteFont_frame:
  assumes rd: "read_data f = Inr (data, f0)"
      and mem: "i \<in> Font.id ` set (DatabaseData.fonts data)"
  shows "\<exists>k data'.
           k < length (DatabaseData.fonts data) \<and>
           Font.id (DatabaseData.fonts data ! k) = i \<and>
           (\<forall>j < k. Font.id (DatabaseData.fonts data ! j) \<noteq> i) \<and>
           JsonDatabase_deleteFont i f = Inr (True, Parses (DatabaseData_json data')) \<and>
           read_data (Parses (DatabaseData_json data')) = Inr (data', Parses (DatabaseData_json data')) \<and>
           DatabaseData.fonts data' =
             take k (DatabaseData.fonts data) @ drop (Suc k) (DatabaseData.fonts data) \<and>
           (distinct (map Font.id (DatabaseData.fonts data)) \<longrightarrow>
              DatabaseData.fonts data' =
                filter (\<lambda>font. Font.id font \<noteq> i) (DatabaseData.fonts data)) \<and>
           length (fontGroups data') = length (fontGroups data) \<and>
           (\<forall>n < length (fontGroups data).
              fontGroups data' ! n = (fontGroups data ! n)
                \<lparr>FontGroup.fonts :=
                   filter (\<lambda>font. Font.id font \<noteq> i) (FontGroup.fonts (fontGroups data ! n))\<rparr>)"
proof -
  let ?fs = "DatabaseData.fonts data"
  from JsonDatabase_deleteFont_present[OF rd mem] obtain k where
    k: "k < length ?fs" "Font.id (?fs ! k) = i" "\<forall>j < k. Font.id (?fs ! j) \<noteq> i"
    and del: "JsonDatabase_deleteFont i f =
               Inr (True, Parses (DatabaseData_json
                 (data\<lparr>DatabaseData.fonts := take k ?fs @ drop (Suc k) ?fs,
                        fontGroups :=
                          map (\<lambda>group. group\<lparr>FontGroup.fonts :=
                                 filter (\<lambda>font. Font.id font \<noteq> i) (FontGroup.fonts group)\<rparr>)
                              (fontGroups data)\<rparr>)))"
    by blast
  define data' where "data' = data\<lparr>DatabaseData.fonts := take k ?fs @ drop (Suc k) ?fs,
     fontGroups := map (\<lambda>group. group\<lparr>FontGroup.fonts :=
        filter (\<lambda>font. Font.id font \<noteq> i) (FontGroup.fonts group)\<rparr>) (fontGroups data)\<rparr>"
  have del': "JsonDatabase_deleteFont i f = Inr (True, Parses (DatabaseData_json data'))"
    using del by (simp add: data'_def)
  have rd': "read_data (Parses (DatabaseData_json data')) = Inr (data', Parses (DatabaseData_json data'))"
    by (rule read_data_Parses)
  have dis: "distinct (map Font.id ?fs) \<longrightarrow>
      DatabaseData.fonts data' = filter (\<lambda>font. Font.id font \<noteq> i) ?fs"
    using remove_first_distinct[of Font.id ?fs k i] k by (simp add: data'_def)
  show ?thesis
    using k del' rd' dis by (intro exI[of _ k] exI[of _ data']) (simp add: data'_def)
qed

theorem deleteFont_frame_witness:
  "read_data (Parses (DatabaseData_json with_group))
     = Inr (with_group, Parses (DatabaseData_json with_group)) \<and>
   arial_id \<in> Font.id ` set (DatabaseData.fonts with_group) \<and>
   distinct (map Font.id (DatabaseData.fonts with_group)) \<and>
   JsonDatabase_deleteFont arial_id (Parses (DatabaseData_json with_group))
     = Inr (True, Parses (DatabaseData_json after_arial))"
proof -
  let ?f = "Parses (DatabaseData_json with_group)"
  have h1: "read_data ?f = Inr (with_group, ?f)" by (rule read_data_Parses)
  have h2: "arial_id \<in> Font.id ` set (DatabaseData.fonts with_group)"
    by (simp add: with_group_def arial_def)
  have h3: "distinct (map Font.id (DatabaseData.fonts with_group))"
    by (simp add: with_group_def arial_def georgia_def ids_distinct)
  from deleteFont_frame[OF h1 h2] obtain k :: nat and data' where
    del: "JsonDatabase_deleteFont arial_id ?f = Inr (True, Parses (DatabaseData_json data'))"
    and fs: "distinct (map Font.id (DatabaseData.fonts with_group)) \<longrightarrow>
              DatabaseData.fonts data' =
                filter (\<lambda>font. Font.id font \<noteq> arial_id) (DatabaseData.fonts with_group)"
    and len: "length (fontGroups data') = length (fontGroups with_group)"
    and grp: "\<forall>n < length (fontGroups with_group).
              fontGroups data' ! n = (fontGroups with_group ! n)
                \<lparr>FontGroup.fonts := filter (\<lambda>font. Font.id font \<noteq> arial_id)
                   (FontGroup.fonts (fontGroups with_group ! n))\<rparr>"
    by blast
  have a: "DatabaseData.fonts data' = [georgia]"
    using fs h3 by (simp add: with_group_def arial_def georgia_def ids_distinct)
  have "fontGroups data' ! 0 = body_text\<lparr>FontGroup.fonts := [georgia]\<rparr>"
    using grp by (simp add: with_group_def body_text_def arial_def georgia_def ids_distinct)
  moreover have "length (fontGroups data') = 1" using len by (simp add: with_group_def)
  ultimately have b: "fontGroups data' = [body_text\<lparr>FontGroup.fonts := [georgia]\<rparr>]"
    by (cases "fontGroups data'") simp_all
  have "data' = after_arial" using a b by (simp add: after_arial_def)
  with del h1 h2 h3 show ?thesis by simp
qed

section \<open>Claims about creating and updating a group\<close>

text \<open>
  What a successful \<open>createFontGroup\<close> returns and appends: a group whose \<open>createdAt\<close>
  is the first clock reading and whose \<open>updatedAt\<close> is the second (so they are equal
  when the two readings are), whose id is the generated one, and whose \<open>fonts\<close> are,
  position by position, the first stored font with the requested id.
\<close>

lemma createFontGroup_success:
  assumes rd: "read_data f = Inr (data, f0)"
      and ok: "FontService_createFontGroup uuid now1 now2 request f = Inr (Some g, f')"
  shows "createdAt g = now1 \<and> updatedAt g = now2 \<and>
         (now1 = now2 \<longrightarrow> createdAt g = updatedAt g) \<and>
         FontGroup.id g = uuid \<and> FontGroup.name g = CreateFontGroupRequest.name request \<and>
         length (FontGroup.fonts g) = length (CreateFontGroupRequest.fontIds request) \<and>
         (\<forall>n < length (CreateFontGroupRequest.fontIds request).
            find (\<lambda>font. Font.id font = CreateFontGroupRequest.fontIds request ! n)
                 (DatabaseData.fonts data) = Some (FontGroup.fonts g ! n)) \<and>
         read_data f' = Inr (data\<lparr>fontGroups := fontGroups data @ [g]\<rparr>, f')"
proof -
  let ?ids = "CreateFontGroupRequest.fontIds request"
  let ?sel = "selectFonts (DatabaseData.fonts data) ?ids"
  from ok have len: "length ?sel = length ?ids"
    by (auto simp: FontService_createFontGroup_def getAllFonts_eq[OF rd] Let_def split: if_splits)
  then have sub: "set ?ids \<subseteq> Font.id ` set (DatabaseData.fonts data)"
    by (simp add: selectFonts_length)
  from ok len have g: "g = \<lparr>FontGroup.id = uuid, name = CreateFontGroupRequest.name request,
        fonts = ?sel, createdAt = now1, updatedAt = now2\<rparr>"
    and f': "f' = write_data (data\<lparr>fontGroups := fontGroups data @ [g]\<rparr>) (ensureDatabase f)"
    by (auto simp: FontService_createFontGroup_def getAllFonts_eq[OF rd] Let_def
        addFontGroup_eq[OF read_data_ensured[OF rd]] ensureDatabase_idem split: if_splits)
  have nth: "\<forall>n < length ?ids.
      find (\<lambda>font. Font.id font = ?ids ! n) (DatabaseData.fonts data) = Some (FontGroup.fonts g ! n)"
  proof (intro allI impI)
    fix n assume n: "n < length ?ids"
    then have "?ids ! n \<in> Font.id ` set (DatabaseData.fonts data)" using sub by auto
    then have "find (\<lambda>font. Font.id font = ?ids ! n) (DatabaseData.fonts data) \<noteq> None"
      using find_Some_iff_id[of "?ids ! n" "DatabaseData.fonts data"] by blast
    then show "find (\<lambda>font. Font.id font = ?ids ! n) (DatabaseData.fonts data)
                 = Some (FontGroup.fonts g ! n)"
      using n by (auto simp: g selectFonts_all_found[OF sub])
  qed
  have "read_data f' = Inr (data\<lparr>fontGroups := fontGroups data @ [g]\<rparr>, f')"
    unfolding f' by (rule read_data_write_data)
  then show ?thesis using nth len by (simp add: g)
qed

lemma select_both: "selectFonts [arial, georgia] [arial_id, georgia_id] = [arial, georgia]"
  by (simp add: selectFonts_def arial_def georgia_def ids_distinct)

lemma create_body_text:
  "FontService_createFontGroup body_text_id 1700000002000 now2
       \<lparr>CreateFontGroupRequest.name = ''Body Text'', fontIds = [arial_id, georgia_id]\<rparr>
       (Parses (DatabaseData_json two_fonts))
     = Inr (Some (body_text\<lparr>updatedAt := now2\<rparr>),
            Parses (DatabaseData_json
              (two_fonts\<lparr>fontGroups := [body_text\<lparr>updatedAt := now2\<rparr>]\<rparr>)))"
  using select_both
  by (simp add: FontService_createFontGroup_def getAllFonts_eq[OF read_data_Parses]
      addFontGroup_eq[OF read_data_Parses] ensureDatabase_cases write_data_eq
      two_fonts_def body_text_def Let_def)

lemma createFontGroup_success_example:
  "read_data (Parses (DatabaseData_json two_fonts))
     = Inr (two_fonts, Parses (DatabaseData_json two_fonts)) \<and>
   FontService_createFontGroup body_text_id 1700000002000 1700000002000
       \<lparr>CreateFontGroupRequest.name = ''Body Text'', fontIds = [arial_id, georgia_id]\<rparr>
       (Parses (DatabaseData_json two_fonts))
     = Inr (Some body_text, Parses (DatabaseData_json with_group)) \<and>
   createdAt body_text = updatedAt body_text \<and>
   length (FontGroup.fonts body_text) = 2 \<and>
   find (\<lambda>font. Font.id font = arial_id) (DatabaseData.fonts two_fonts)
     = Some (FontGroup.fonts body_text ! 0) \<and>
   find (\<lambda>font. Font.id font = georgia_id) (DatabaseData.fonts two_fonts)
     = Some (FontGroup.fonts body_text ! 1) \<and>
   read_data (Parses (DatabaseData_json with_group))
     = Inr (with_group, Parses (DatabaseData_json with_group))"
proof -
  let ?f = "Parses (DatabaseData_json two_fonts)"
  let ?req = "\<lparr>CreateFontGroupRequest.name = ''Body Text'', fontIds = [arial_id, georgia_id]\<rparr>"
  have h1: "read_data ?f = Inr (two_fonts, ?f)" by (rule read_data_Parses)
  have eq: "two_fonts\<lparr>fontGroups := [body_text]\<rparr> = with_group"
    by (simp add: two_fonts_def with_group_def)
  have h2: "FontService_createFontGroup body_text_id 1700000002000 1700000002000 ?req ?f
              = Inr (Some body_text, Parses (DatabaseData_json with_group))"
    using create_body_text[of 1700000002000] eq by (simp add: body_text_def)
  note t = createFontGroup_success[OF h1 h2]
  from t have c: "createdAt body_text = updatedAt body_text" by simp
  from t have l: "length (FontGroup.fonts body_text) = 2" by simp
  from t have n: "\<forall>n < length (CreateFontGroupRequest.fontIds ?req).
      find (\<lambda>font. Font.id font = CreateFontGroupRequest.fontIds ?req ! n)
           (DatabaseData.fonts two_fonts) = Some (FontGroup.fonts body_text ! n)" by blast
  from n[rule_format, of 0] have n0:
    "find (\<lambda>font. Font.id font = arial_id) (DatabaseData.fonts two_fonts)
       = Some (FontGroup.fonts body_text ! 0)" by simp
  from n[rule_format, of 1] have n1:
    "find (\<lambda>font. Font.id font = georgia_id) (DatabaseData.fonts two_fonts)
       = Some (FontGroup.fonts body_text ! 1)" by simp
  have r: "read_data (Parses (DatabaseData_json with_group))
     = Inr (with_group, Parses (DatabaseData_json with_group))" by (rule read_data_Parses)
  show ?thesis using h1 h2 c l n0 n1 r by blast
qed

text \<open>
  C6. A new group is to have \<open>createdAt\<close> and \<open>updatedAt\<close> set to the one creation
  instant, and the group list of the client shows a group as updated exactly when the
  two differ. The object literal of \<open>createFontGroup\<close> evaluates \<open>new Date()\<close> twice,
  once per field: when the clock ticks between the two, the group just created is
  returned and stored with \<open>updatedAt\<close> one millisecond after \<open>createdAt\<close>. Its \<open>fonts\<close>
  are the snapshots of the requested fonts in request order.
\<close>

theorem createFontGroup_two_clock_readings:
  "FontService_createFontGroup body_text_id 1700000002000 1700000002001
       \<lparr>CreateFontGroupRequest.name = ''Body Text'', fontIds = [arial_id, georgia_id]\<rparr>
       (Parses (DatabaseData_json two_fonts))
     = Inr (Some (body_text\<lparr>updatedAt := 1700000002001\<rparr>),
            Parses (DatabaseData_json
              (two_fonts\<lparr>fontGroups := [body_text\<lparr>updatedAt := 1700000002001\<rparr>]\<rparr>))) \<and>
   createdAt (body_text\<lparr>updatedAt := 1700000002001\<rparr>)
     \<noteq> updatedAt (body_text\<lparr>updatedAt := 1700000002001\<rparr>)"
  using create_body_text[of 1700000002001] by (simp add: body_text_def)

text \<open>
  C5, as the code has it. A successful \<open>updateFontGroup\<close> found the group; the group it
  returns has the same id and the same \<open>createdAt\<close>, its \<open>updatedAt\<close> is the clock
  reading of the call, and it is stored at the position of the old one. The new
  \<open>updatedAt\<close> is not below the old one when the clock reading is not.
\<close>

theorem updateFontGroup_success:
  assumes rd: "read_data f = Inr (data, f0)"
      and ok: "FontService_updateFontGroup now request f = Inr (Some updated, f')"
  shows "\<exists>existing k.
           find (\<lambda>group. FontGroup.id group = UpdateFontGroupRequest.id request) (fontGroups data)
             = Some existing \<and>
           k < length (fontGroups data) \<and> fontGroups data ! k = existing \<and>
           FontGroup.id updated = FontGroup.id existing \<and>
           createdAt updated = createdAt existing \<and>
           updatedAt updated = now \<and>
           read_data f' = Inr (data\<lparr>fontGroups := (fontGroups data)[k := updated]\<rparr>, f') \<and>
           (updatedAt existing \<le> now \<longrightarrow> updatedAt existing \<le> updatedAt updated)"
proof -
  let ?P = "\<lambda>group. FontGroup.id group = UpdateFontGroupRequest.id request"
  let ?ids = "UpdateFontGroupRequest.fontIds request"
  from ok obtain existing where fnd: "find ?P (fontGroups data) = Some existing"
    by (cases "find ?P (fontGroups data)")
       (auto simp: FontService_updateFontGroup_def getFontGroupById_eq[OF rd])
  then have idx: "FontGroup.id existing = UpdateFontGroupRequest.id request"
    by (auto simp: find_Some_iff)
  define ug where "ug = existing\<lparr>FontGroup.name := UpdateFontGroupRequest.name request,
      FontGroup.fonts := selectFonts (DatabaseData.fonts data) ?ids, updatedAt := now\<rparr>"
  have ugid: "FontGroup.id ug = UpdateFontGroupRequest.id request" by (simp add: ug_def idx)
  define k where "k = nat (findIndex ?P (fontGroups data))"
  have fi: "findIndex ?P (fontGroups data) \<noteq> - 1" "fontGroups data ! k = existing"
    using find_findIndex_Some[OF fnd] by (auto simp: k_def)
  have klt: "k < length (fontGroups data)" using findIndex_some[OF fi(1)] by (simp add: k_def)
  have upd: "JsonDatabase_updateFontGroup ug (ensureDatabase f) =
      Inr (True, write_data (data\<lparr>fontGroups := (fontGroups data)[k := ug]\<rparr>) (ensureDatabase f))"
    using JsonDatabase_updateFontGroup_found[OF read_data_ensured[OF rd], of ug existing] fnd
    by (simp add: ugid k_def ensureDatabase_idem)
  from ok have res: "updated = ug"
    "f' = write_data (data\<lparr>fontGroups := (fontGroups data)[k := ug]\<rparr>) (ensureDatabase f)"
    using fnd upd
    by (auto simp: FontService_updateFontGroup_def getFontGroupById_eq[OF rd]
        getAllFonts_eq[OF read_data_ensured[OF rd]] ensureDatabase_idem Let_def ug_def
        split: if_splits)
  have "read_data f' = Inr (data\<lparr>fontGroups := (fontGroups data)[k := updated]\<rparr>, f')"
    unfolding res by (rule read_data_write_data)
  moreover have "FontGroup.id updated = FontGroup.id existing" "createdAt updated = createdAt existing"
    "updatedAt updated = now" by (simp_all add: res ug_def)
  ultimately show ?thesis using fnd klt fi(2) by auto
qed

lemma select_swapped: "selectFonts [arial, georgia] [georgia_id, arial_id] = [georgia, arial]"
  by (simp add: selectFonts_def arial_def georgia_def ids_distinct)

lemma find_body_text:
  "find (\<lambda>group. FontGroup.id group = body_text_id) (fontGroups with_group) = Some body_text"
  by (simp add: with_group_def body_text_def)

lemma update_body_text:
  "FontService_updateFontGroup now
       \<lparr>UpdateFontGroupRequest.id = body_text_id, name = ''Body'',
        fontIds = [georgia_id, arial_id]\<rparr>
       (Parses (DatabaseData_json with_group))
     = Inr (Some (body_text\<lparr>FontGroup.name := ''Body'', FontGroup.fonts := [georgia, arial],
                             updatedAt := now\<rparr>),
            Parses (DatabaseData_json
              (with_group\<lparr>fontGroups :=
                 [body_text\<lparr>FontGroup.name := ''Body'', FontGroup.fonts := [georgia, arial],
                             updatedAt := now\<rparr>]\<rparr>)))"
  using select_swapped find_body_text
  by (simp add: FontService_updateFontGroup_def getFontGroupById_eq[OF read_data_Parses]
      getAllFonts_eq[OF read_data_Parses] JsonDatabase_updateFontGroup_def read_data_Parses
      ensureDatabase_cases write_data_eq with_group_def body_text_def Let_def)

theorem updateFontGroup_success_witness:
  "read_data (Parses (DatabaseData_json with_group))
     = Inr (with_group, Parses (DatabaseData_json with_group)) \<and>
   FontService_updateFontGroup 1700000003000
       \<lparr>UpdateFontGroupRequest.id = body_text_id, name = ''Body'',
        fontIds = [georgia_id, arial_id]\<rparr>
       (Parses (DatabaseData_json with_group))
     = Inr (Some (body_text\<lparr>FontGroup.name := ''Body'', FontGroup.fonts := [georgia, arial],
                             updatedAt := 1700000003000\<rparr>),
            Parses (DatabaseData_json
              (with_group\<lparr>fontGroups :=
                 [body_text\<lparr>FontGroup.name := ''Body'', FontGroup.fonts := [georgia, arial],
                             updatedAt := 1700000003000\<rparr>]\<rparr>))) \<and>
   updatedAt body_text \<le> 1700000003000 \<and>
   (\<exists>existing k.
      find (\<lambda>group. FontGroup.id group = body_text_id) (fontGroups with_group) = Some existing \<and>
      existing = body_text \<and> k < length (fontGroups with_group) \<and>
      fontGroups with_group ! k = existing \<and>
      FontGroup.id (body_text\<lparr>FontGroup.name := ''Body'', FontGroup.fonts := [georgia, arial],
                              updatedAt := 1700000003000\<rparr>) = FontGroup.id existing \<and>
      createdAt (body_text\<lparr>FontGroup.name := ''Body'', FontGroup.fonts := [georgia, arial],
                             updatedAt := 1700000003000\<rparr>) = createdAt existing \<and>
      updatedAt existing
        \<le> updatedAt (body_text\<lparr>FontGroup.name := ''Body'', FontGroup.fonts := [georgia, arial],
                                  updatedAt := 1700000003000\<rparr>))"
proof -
  let ?f = "Parses (DatabaseData_json with_group)"
  have h1: "read_data ?f = Inr (with_group, ?f)" by (rule read_data_Parses)
  note h2 = update_body_text[of 1700000003000]
  have h3: "updatedAt body_text \<le> 1700000003000" by (simp add: body_text_def)
  from updateFontGroup_success[OF h1 h2] obtain existing k where
    e: "find (\<lambda>group. FontGroup.id group = body_text_id) (fontGroups with_group) = Some existing"
    and r: "k < length (fontGroups with_group)" "fontGroups with_group ! k = existing"
      "FontGroup.id (body_text\<lparr>FontGroup.name := ''Body'', FontGroup.fonts := [georgia, arial],
                              updatedAt := 1700000003000\<rparr>) = FontGroup.id existing"
      "createdAt (body_text\<lparr>FontGroup.name := ''Body'', FontGroup.fonts := [georgia, arial],
                             updatedAt := 1700000003000\<rparr>) = createdAt existing"
      "updatedAt existing \<le> 1700000003000 \<longrightarrow> updatedAt existing
        \<le> updatedAt (body_text\<lparr>FontGroup.name := ''Body'', FontGroup.fonts := [georgia, arial],
                                  updatedAt := 1700000003000\<rparr>)"
    by auto
  from e find_body_text have b: "existing = body_text" by simp
  from r(5) b h3 have r5: "updatedAt existing
        \<le> updatedAt (body_text\<lparr>FontGroup.name := ''Body'', FontGroup.fonts := [georgia, arial],
                                  updatedAt := 1700000003000\<rparr>)" by simp
  show ?thesis
    apply (intro conjI exI[of _ existing] exI[of _ k])
            apply (rule h1)
           apply (rule h2)
          apply (rule h3)
         apply (rule e)
        apply (rule b)
       apply (rule r(1))
      apply (rule r(2))
     apply (rule r(3))
    apply (rule r(4))
    apply (rule r5)
    done
qed

text \<open>
  C5, as stated, fails: \<open>updatedAt\<close> is set to the clock reading and never compared
  with the stored one. With a clock that reads earlier than the stored \<open>updatedAt\<close>
  (a clock set back, or a document restored from elsewhere), the update succeeds and
  \<open>updatedAt\<close> goes down.
\<close>

theorem updateFontGroup_updatedAt_can_decrease:
  "FontService_updateFontGroup 1600000000000
       \<lparr>UpdateFontGroupRequest.id = body_text_id, name = ''Body'',
        fontIds = [georgia_id, arial_id]\<rparr>
       (Parses (DatabaseData_json with_group))
     = Inr (Some (body_text\<lparr>FontGroup.name := ''Body'', FontGroup.fonts := [georgia, arial],
                             updatedAt := 1600000000000\<rparr>),
            Parses (DatabaseData_json
              (with_group\<lparr>fontGroups :=
                 [body_text\<lparr>FontGroup.name := ''Body'', FontGroup.fonts := [georgia, arial],
                             updatedAt := 1600000000000\<rparr>]\<rparr>))) \<and>
   updatedAt (body_text\<lparr>FontGroup.name := ''Body'', FontGroup.fonts := [georgia, arial],
                         updatedAt := 1600000000000\<rparr>) < updatedAt body_text"
  using update_body_text[of 1600000000000] by (simp add: body_text_def)

section \<open>Every call, case by case\<close>

lemma createFontGroup_cases:
  assumes rd: "read_data f = Inr (data, f0)"
  shows "FontService_createFontGroup uuid now1 now2 request f = Inr (None, f) \<or>
         FontService_createFontGroup uuid now1 now2 request f = Inr (None, ensureDatabase f) \<or>
         (\<exists>g. FontService_createFontGroup uuid now1 now2 request f =
                 Inr (Some g, Parses (DatabaseData_json (data\<lparr>fontGroups := fontGroups data @ [g]\<rparr>))))"
  by (simp add: FontService_createFontGroup_def getAllFonts_eq[OF rd] Let_def
      addFontGroup_eq[OF read_data_ensured[OF rd]] ensureDatabase_idem write_data_eq)

lemma updateFontGroup_cases:
  assumes rd: "read_data f = Inr (data, f0)"
  shows "FontService_updateFontGroup now request f = Inr (None, ensureDatabase f) \<or>
         (\<exists>ug k. k < length (fontGroups data) \<and>
                 FontGroup.id (fontGroups data ! k) = UpdateFontGroupRequest.id request \<and>
                 FontService_updateFontGroup now request f =
                   Inr (Some ug, Parses (DatabaseData_json
                          (data\<lparr>fontGroups := (fontGroups data)[k := ug]\<rparr>))))"
proof (cases "find (\<lambda>group. FontGroup.id group = UpdateFontGroupRequest.id request) (fontGroups data)")
  case None
  then show ?thesis by (simp add: FontService_updateFontGroup_def getFontGroupById_eq[OF rd])
next
  case (Some existing)
  let ?P = "\<lambda>group. FontGroup.id group = UpdateFontGroupRequest.id request"
  let ?k = "nat (findIndex ?P (fontGroups data))"
  from Some have idx: "FontGroup.id existing = UpdateFontGroupRequest.id request"
    by (auto simp: find_Some_iff)
  have fi: "findIndex ?P (fontGroups data) \<noteq> - 1" "fontGroups data ! ?k = existing"
    using find_findIndex_Some[OF Some] by auto
  have klt: "?k < length (fontGroups data)" using findIndex_some[OF fi(1)] by simp
  have upd: "\<And>ug. FontGroup.id ug = UpdateFontGroupRequest.id request \<Longrightarrow>
      JsonDatabase_updateFontGroup ug (ensureDatabase f) =
        Inr (True, Parses (DatabaseData_json (data\<lparr>fontGroups := (fontGroups data)[?k := ug]\<rparr>)))"
    using JsonDatabase_updateFontGroup_found[OF read_data_ensured[OF rd], of _ existing] Some
    by (simp add: write_data_eq)
  define ug where "ug = existing\<lparr>FontGroup.name := UpdateFontGroupRequest.name request,
      FontGroup.fonts := selectFonts (DatabaseData.fonts data) (UpdateFontGroupRequest.fontIds request),
      updatedAt := now\<rparr>"
  have ugid: "FontGroup.id ug = UpdateFontGroupRequest.id request" by (simp add: ug_def idx)
  have res: "FontService_updateFontGroup now request f = Inr (None, ensureDatabase f) \<or>
        FontService_updateFontGroup now request f =
          Inr (Some ug, Parses (DatabaseData_json (data\<lparr>fontGroups := (fontGroups data)[?k := ug]\<rparr>)))"
    using Some upd[OF ugid]
    by (simp add: FontService_updateFontGroup_def getFontGroupById_eq[OF rd]
        getAllFonts_eq[OF read_data_ensured[OF rd]] ensureDatabase_idem Let_def ug_def)
  show ?thesis using res klt fi(2) idx by blast
qed

lemma deleteFontGroup_cases:
  assumes rd: "read_data f = Inr (data, f0)"
  shows "JsonDatabase_deleteFontGroup i f = Inr (False, ensureDatabase f) \<or>
         (\<exists>k. k < length (fontGroups data) \<and> FontGroup.id (fontGroups data ! k) = i \<and>
              JsonDatabase_deleteFontGroup i f =
                Inr (True, Parses (DatabaseData_json
                       (data\<lparr>fontGroups := take k (fontGroups data) @ drop (Suc k) (fontGroups data)\<rparr>))))"
proof (cases "findIndex (\<lambda>group. FontGroup.id group = i) (fontGroups data) = - 1")
  case True
  then show ?thesis using rd read_data_file[OF rd] by (simp add: JsonDatabase_deleteFontGroup_def)
next
  case False
  let ?P = "\<lambda>group. FontGroup.id group = i"
  let ?k = "nat (findIndex ?P (fontGroups data))"
  from findIndex_some[OF False] have k: "0 \<le> findIndex ?P (fontGroups data)"
    "?k < length (fontGroups data)" "FontGroup.id (fontGroups data ! ?k) = i" by auto
  have sp: "Array_splice (fontGroups data) (findIndex ?P (fontGroups data)) (Suc 0)
              = take ?k (fontGroups data) @ drop (Suc ?k) (fontGroups data)"
    by (rule splice_one[OF k(1) k(2)])
  have "JsonDatabase_deleteFontGroup i f =
                Inr (True, Parses (DatabaseData_json
                       (data\<lparr>fontGroups := take ?k (fontGroups data) @ drop (Suc ?k) (fontGroups data)\<rparr>)))"
    using rd False by (simp add: JsonDatabase_deleteFontGroup_def Let_def write_data_eq sp)
  with k show ?thesis by blast
qed

lemma saveFont_cases:
  assumes rd: "read_data (db s) = Inr (data, f0)"
      and run: "FontService_saveFont uuid now file original s = Inr (font, s')"
  shows "db s' = Parses (DatabaseData_json
                   (data\<lparr>DatabaseData.fonts := DatabaseData.fonts data @ [font]\<rparr>))"
  using run addFont_eq[OF rd]
  by (auto simp: FontService_saveFont_def Let_def write_data_eq split: sum.splits)



lemma FontService_deleteFont_absent:
  assumes rd: "read_data (db s) = Inr (data, f0)"
      and no: "i \<notin> Font.id ` set (DatabaseData.fonts data)"
  shows "FontService_deleteFont i s = Inr (False, s\<lparr>db := ensureDatabase (db s)\<rparr>)"
proof -
  have "find (\<lambda>font. Font.id font = i) (DatabaseData.fonts data) = None"
    using no find_Some_iff_id[of i "DatabaseData.fonts data"] by simp
  then show ?thesis by (simp add: FontService_deleteFont_def getFontById_eq[OF rd])
qed

section \<open>Paths\<close>


lemma split_path_plain: "CHR ''/'' \<notin> set n \<Longrightarrow> split_path n = [n]"
  by (induction n) (auto split: list.splits)



lemma path_join_plain:
  assumes "CHR ''/'' \<notin> set n" "n \<noteq> []" "n \<noteq> ''.''" "n \<noteq> ''..''"
  shows "path_join dir [''uploads'', n] = dir @ [''uploads'', n]"
proof -
  have "concat (map split_path [''uploads'', n]) = [''uploads'', n]"
    using split_path_plain[OF assms(1)] by simp
  then show ?thesis using assms by (simp add: path_join_def)
qed



lemma ttf_plain:
  assumes "CHR ''/'' \<notin> set u"
  shows "CHR ''/'' \<notin> set (u @ ''.ttf'')" "u @ ''.ttf'' \<noteq> []" "u @ ''.ttf'' \<noteq> ''.''"
    "u @ ''.ttf'' \<noteq> ''..''"
  using assms by (auto simp: append_eq_Cons_conv)

lemma fs_unlink_fields: "cwd (fs_unlink p t s) = cwd s"
  by (simp add: fs_unlink_def)

lemma fs_unlink_db: "db (fs_unlink p t s) = db s \<or> db (fs_unlink p t s) = Absent"
  by (simp add: fs_unlink_def)

section \<open>What deleteFont of the service does to the files\<close>

lemma read_data_Absent:
  "read_data Absent = Inr (initialData, Parses (DatabaseData_json initialData))"
  by (simp add: read_data_def JsonDatabase_read_def ensureDatabase_cases as_DatabaseData_json)

lemma JsonDatabase_deleteFont_Absent:
  "JsonDatabase_deleteFont i Absent = Inr (False, Parses (DatabaseData_json initialData))"
  using JsonDatabase_deleteFont_absent[OF read_data_Absent, of i]
  by (simp add: initialData_def ensureDatabase_cases)

lemma FontService_deleteFont_found:
  assumes rd: "read_data (db s) = Inr (data, f0)"
      and fnd: "find (\<lambda>font. Font.id font = i) (DatabaseData.fonts data) = Some font"
  shows "FontService_deleteFont i s =
           (case JsonDatabase_deleteFont i
                   (db (fs_unlink (path_join (cwd s) [''uploads'', filename font])
                          (ends_with_slash (filename font)) (s\<lparr>db := ensureDatabase (db s)\<rparr>))) of
              Inl e \<Rightarrow> Inl e
            | Inr (deleted, f2) \<Rightarrow>
                Inr (deleted,
                     (fs_unlink (path_join (cwd s) [''uploads'', filename font])
                        (ends_with_slash (filename font)) (s\<lparr>db := ensureDatabase (db s)\<rparr>))
                     \<lparr>db := f2\<rparr>))"
  using fnd by (simp add: FontService_deleteFont_def getFontById_eq[OF rd] Let_def)

text \<open>
  When the stored filename leads to the database file, the file is removed, the store is
  made anew by the read that follows, and \<open>deleteFont\<close> returns \<open>false\<close>.
\<close>

lemma FontService_deleteFont_unlinks:
  assumes rd: "read_data (db s) = Inr (data, f0)"
      and hit: "unlinks_database (cwd s) data (DeleteFont i)"
  shows "FontService_deleteFont i s =
           Inr (False, s\<lparr>db := Parses (DatabaseData_json initialData)\<rparr>)"
proof -
  from hit obtain font where
    fnd: "find (\<lambda>font. Font.id font = i) (DatabaseData.fonts data) = Some font"
    and p: "\<not> ends_with_slash (filename font)"
      "path_join (cwd s) [''uploads'', filename font] = path_join (cwd s) [''data'', ''database.json'']"
    by (auto split: option.splits)
  have u: "fs_unlink (path_join (cwd s) [''uploads'', filename font])
             (ends_with_slash (filename font)) (s\<lparr>db := ensureDatabase (db s)\<rparr>)
           = s\<lparr>db := Absent\<rparr>"
    using p by (simp add: fs_unlink_def)
  show ?thesis
    unfolding FontService_deleteFont_found[OF rd fnd] u
    by (simp add: JsonDatabase_deleteFont_Absent)
qed

lemma FontService_deleteFont_present:
  assumes rd: "read_data (db s) = Inr (data, f0)"
      and mem: "i \<in> Font.id ` set (DatabaseData.fonts data)"
      and miss: "\<not> unlinks_database (cwd s) data (DeleteFont i)"
  shows "\<exists>k s1. cwd s1 = cwd s \<and>
           FontService_deleteFont i s =
             Inr (True, s1\<lparr>db := Parses (DatabaseData_json
                    (data\<lparr>DatabaseData.fonts :=
                            take k (DatabaseData.fonts data) @ drop (Suc k) (DatabaseData.fonts data),
                          fontGroups :=
                            map (\<lambda>group. group\<lparr>FontGroup.fonts :=
                                   filter (\<lambda>font. Font.id font \<noteq> i) (FontGroup.fonts group)\<rparr>)
                                (fontGroups data)\<rparr>))\<rparr>)"
proof -
  from mem obtain font where
    fnd: "find (\<lambda>font. Font.id font = i) (DatabaseData.fonts data) = Some font"
    using find_Some_iff_id[of i "DatabaseData.fonts data"] by auto
  let ?s1 = "fs_unlink (path_join (cwd s) [''uploads'', filename font])
               (ends_with_slash (filename font)) (s\<lparr>db := ensureDatabase (db s)\<rparr>)"
  from miss fnd have "ends_with_slash (filename font) \<or>
      path_join (cwd s) [''uploads'', filename font] \<noteq> path_join (cwd s) [''data'', ''database.json'']"
    by auto
  then have d: "db ?s1 = ensureDatabase (db s)" by (auto simp: fs_unlink_def)
  have c: "cwd ?s1 = cwd s" by (simp add: fs_unlink_fields)
  from JsonDatabase_deleteFont_present[OF read_data_ensured[OF rd] mem] obtain k where
    del: "JsonDatabase_deleteFont i (ensureDatabase (db s)) =
            Inr (True, Parses (DatabaseData_json
              (data\<lparr>DatabaseData.fonts :=
                      take k (DatabaseData.fonts data) @ drop (Suc k) (DatabaseData.fonts data),
                    fontGroups :=
                      map (\<lambda>group. group\<lparr>FontGroup.fonts :=
                             filter (\<lambda>font. Font.id font \<noteq> i) (FontGroup.fonts group)\<rparr>)
                          (fontGroups data)\<rparr>)))"
    by blast
  have r: "FontService_deleteFont i s =
             Inr (True, ?s1\<lparr>db := Parses (DatabaseData_json
                    (data\<lparr>DatabaseData.fonts :=
                            take k (DatabaseData.fonts data) @ drop (Suc k) (DatabaseData.fonts data),
                          fontGroups :=
                            map (\<lambda>group. group\<lparr>FontGroup.fonts :=
                                   filter (\<lambda>font. Font.id font \<noteq> i) (FontGroup.fonts group)\<rparr>)
                                (fontGroups data)\<rparr>))\<rparr>)"
    unfolding FontService_deleteFont_found[OF rd fnd] d by (simp add: del)
  show ?thesis by (rule exI[of _ k], rule exI[of _ ?s1], rule conjI, rule c, rule r)
qed

section \<open>Groups left with fewer than two snapshots\<close>









section \<open>The identifiers of the stored fonts\<close>

lemma saveFont_fields:
  assumes rd: "read_data (db s) = Inr (data, f0)"
      and run: "FontService_saveFont uuid now file original s = Inr (font, s')"
  shows "Font.id font = uuid" "cwd s' = cwd s"
  using run addFont_eq[OF rd]
  by (auto simp: FontService_saveFont_def Let_def split: sum.splits)

lemma on_db_fields: "on_db method s = Inr s' \<Longrightarrow> cwd s' = cwd s"
  by (auto simp: on_db_def split: sum.splits)

lemma on_db_file:
  "on_db method s = Inr s' \<Longrightarrow> \<exists>result. method (db s) = Inr (result, db s')"
  by (auto simp: on_db_def split: sum.splits)

text \<open>
  Every call leaves a typed document, and the only font ids it adds to the store are
  the ones \<open>uuidv4()\<close> returned to \<open>saveFont\<close>.
\<close>

lemma run_font_ids:
  assumes rd: "read_data (db s) = Inr (data, f0)"
      and run: "run op s = Inr s'"
  shows "\<exists>data' f1. read_data (db s') = Inr (data', f1) \<and>
           Font.id ` set (DatabaseData.fonts data')
             \<subseteq> Font.id ` set (DatabaseData.fonts data) \<union> set (upload_id op) \<and>
           cwd s' = cwd s"
proof -
  have same: "\<exists>data' f1. read_data (db s') = Inr (data', f1) \<and>
           Font.id ` set (DatabaseData.fonts data')
             \<subseteq> Font.id ` set (DatabaseData.fonts data) \<union> set (upload_id op) \<and>
           cwd s' = cwd s"
    if "db s' = ensureDatabase (db s) \<or> db s' = db s" "cwd s' = cwd s"
  proof -
    have "read_data (db s') = Inr (data, ensureDatabase (db s))"
      using that(1) read_data_ensured[OF rd] rd read_data_file[OF rd] by auto
    with that(2) show ?thesis by auto
  qed
  have groups: "\<exists>data' f1. read_data (db s') = Inr (data', f1) \<and>
           Font.id ` set (DatabaseData.fonts data')
             \<subseteq> Font.id ` set (DatabaseData.fonts data) \<union> set (upload_id op) \<and>
           cwd s' = cwd s"
    if "db s' = Parses (DatabaseData_json (data\<lparr>fontGroups := gs\<rparr>))" "cwd s' = cwd s" for gs
  proof -
    have "read_data (db s') = Inr (data\<lparr>fontGroups := gs\<rparr>, db s')"
      using that(1) by (simp add: read_data_Parses)
    with that(2) show ?thesis by auto
  qed
  show ?thesis
  proof (cases op)
    case (SaveFont uuid now upl original)
    with run obtain font where
      sf: "FontService_saveFont uuid now upl original s = Inr (font, s')"
      by (auto split: sum.splits)
    let ?d = "data\<lparr>DatabaseData.fonts := DatabaseData.fonts data @ [font]\<rparr>"
    have "read_data (db s') = Inr (?d, db s')"
      using saveFont_cases[OF rd sf] by (simp add: read_data_Parses)
    then show ?thesis
      using saveFont_fields[OF rd sf] SaveFont by (intro exI[of _ ?d] exI[of _ "db s'"]) auto
  next
    case GetAllFonts
    with run have "db s' = ensureDatabase (db s)" "cwd s' = cwd s"
      by (auto simp: on_db_def FontService_getAllFonts_def getAllFonts_eq[OF rd])
    with same show ?thesis by simp
  next
    case GetAllFontGroups
    with run have "db s' = ensureDatabase (db s)" "cwd s' = cwd s"
      using rd read_data_file[OF rd]
      by (auto simp: on_db_def FontService_getAllFontGroups_def JsonDatabase_getAllFontGroups_def)
    with same show ?thesis by simp
  next
    case (GetFontById i)
    with run have "db s' = ensureDatabase (db s)" "cwd s' = cwd s"
      by (auto simp: on_db_def FontService_getFontById_def getFontById_eq[OF rd])
    with same show ?thesis by simp
  next
    case (GetFontGroupById i)
    with run have "db s' = ensureDatabase (db s)" "cwd s' = cwd s"
      by (auto simp: on_db_def FontService_getFontGroupById_def getFontGroupById_eq[OF rd])
    with same show ?thesis by simp
  next
    case (DeleteFont i)
    show ?thesis
    proof (cases "i \<in> Font.id ` set (DatabaseData.fonts data)")
      case False
      from run DeleteFont FontService_deleteFont_absent[OF rd False]
      have "db s' = ensureDatabase (db s)" "cwd s' = cwd s" by auto
      with same show ?thesis by simp
    next
      case True
      show ?thesis
      proof (cases "unlinks_database (cwd s) data (DeleteFont i)")
        case hit: True
        from run DeleteFont FontService_deleteFont_unlinks[OF rd hit]
        have d: "db s' = Parses (DatabaseData_json initialData)" and c: "cwd s' = cwd s" by auto
        have "read_data (db s') = Inr (initialData, db s')" using d by (simp add: read_data_Parses)
        then show ?thesis
          using c by (intro exI[of _ initialData] exI[of _ "db s'"]) (simp add: initialData_def)
      next
        case miss: False
        from FontService_deleteFont_present[OF rd True miss] obtain k s1 where
          c1: "cwd s1 = cwd s"
          and del: "FontService_deleteFont i s =
             Inr (True, s1\<lparr>db := Parses (DatabaseData_json
                    (data\<lparr>DatabaseData.fonts :=
                            take k (DatabaseData.fonts data) @ drop (Suc k) (DatabaseData.fonts data),
                          fontGroups :=
                            map (\<lambda>group. group\<lparr>FontGroup.fonts :=
                                   filter (\<lambda>font. Font.id font \<noteq> i) (FontGroup.fonts group)\<rparr>)
                                (fontGroups data)\<rparr>))\<rparr>)"
          by blast
        let ?d = "data\<lparr>DatabaseData.fonts :=
                            take k (DatabaseData.fonts data) @ drop (Suc k) (DatabaseData.fonts data),
                          fontGroups :=
                            map (\<lambda>group. group\<lparr>FontGroup.fonts :=
                                   filter (\<lambda>font. Font.id font \<noteq> i) (FontGroup.fonts group)\<rparr>)
                                (fontGroups data)\<rparr>"
        from run DeleteFont del have d: "db s' = Parses (DatabaseData_json ?d)" and c: "cwd s' = cwd s"
          using c1 by auto
        have r: "read_data (db s') = Inr (?d, db s')" using d by (simp add: read_data_Parses)
        have sub: "set (take k (DatabaseData.fonts data) @ drop (Suc k) (DatabaseData.fonts data))
                     \<subseteq> set (DatabaseData.fonts data)"
          using set_take_subset[of k "DatabaseData.fonts data"]
            set_drop_subset[of "Suc k" "DatabaseData.fonts data"] by auto
        show ?thesis
          using r c sub by (intro exI[of _ ?d] exI[of _ "db s'"]) auto
      qed
    qed
  next
    case (CreateFontGroup uuid now1 now2 request)
    from run CreateFontGroup have c: "cwd s' = cwd s" by (auto dest: on_db_fields)
    from createFontGroup_cases[OF rd, of uuid now1 now2 request]
    consider "db s' = db s" | "db s' = ensureDatabase (db s)"
      | new where "db s' = Parses (DatabaseData_json (data\<lparr>fontGroups := fontGroups data @ [new]\<rparr>))"
      using run CreateFontGroup by (auto simp: on_db_def)
    then show ?thesis
    proof cases
      case 1
      with same c show ?thesis by simp
    next
      case 2
      with same c show ?thesis by simp
    next
      case 3
      with groups c show ?thesis by blast
    qed
  next
    case (UpdateFontGroup now request)
    from run UpdateFontGroup have c: "cwd s' = cwd s" by (auto dest: on_db_fields)
    from updateFontGroup_cases[OF rd, of now request]
    consider "db s' = ensureDatabase (db s)"
      | ug k where
          "db s' = Parses (DatabaseData_json (data\<lparr>fontGroups := (fontGroups data)[k := ug]\<rparr>))"
      using run UpdateFontGroup by (auto simp: on_db_def)
    then show ?thesis
    proof cases
      case 1
      with same c show ?thesis by simp
    next
      case 2
      with groups c show ?thesis by blast
    qed
  next
    case (DeleteFontGroup i)
    from run DeleteFontGroup have c: "cwd s' = cwd s" by (auto dest: on_db_fields)
    from deleteFontGroup_cases[OF rd, of i]
    consider "db s' = ensureDatabase (db s)"
      | k where "db s' = Parses (DatabaseData_json
             (data\<lparr>fontGroups := take k (fontGroups data) @ drop (Suc k) (fontGroups data)\<rparr>))"
      using run DeleteFontGroup by (auto simp: on_db_def FontService_deleteFontGroup_def)
    then show ?thesis
    proof cases
      case 1
      with same c show ?thesis by simp
    next
      case 2
      with groups c show ?thesis by blast
    qed
  qed
qed

lemma step_font_ids:
  assumes rd: "read_data (db s) = Inr (data, f0)"
  shows "\<exists>data' f1. read_data (db (step op s)) = Inr (data', f1) \<and>
           Font.id ` set (DatabaseData.fonts data')
             \<subseteq> Font.id ` set (DatabaseData.fonts data) \<union> set (upload_id op) \<and>
           cwd (step op s) = cwd s"
proof (cases "run op s")
  case (Inl e)
  then have "step op s = s" by (simp add: step_def)
  with rd show ?thesis by auto
next
  case (Inr s')
  then have "step op s = s'" by (simp add: step_def)
  with run_font_ids[OF rd Inr] show ?thesis by simp
qed

lemma replay_font_ids:
  assumes rd: "read_data (db s) = Inr (data, f0)"
  shows "\<exists>data' f1. read_data (db (replay ops s)) = Inr (data', f1) \<and>
           Font.id ` set (DatabaseData.fonts data')
             \<subseteq> Font.id ` set (DatabaseData.fonts data) \<union> set (upload_ids ops) \<and>
           cwd (replay ops s) = cwd s"
  using rd
proof (induction ops arbitrary: s data f0)
  case Nil
  then show ?case by (auto simp: replay_def upload_ids_def)
next
  case (Cons op ops)
  from step_font_ids[OF Cons.prems, of op] obtain d1 f1 where
    r1: "read_data (db (step op s)) = Inr (d1, f1)"
    and i1: "Font.id ` set (DatabaseData.fonts d1)
               \<subseteq> Font.id ` set (DatabaseData.fonts data) \<union> set (upload_id op)"
    and c1: "cwd (step op s) = cwd s"
    by blast
  from Cons.IH[OF r1] obtain d2 f2 where
    r2: "read_data (db (replay ops (step op s))) = Inr (d2, f2)"
    and i2: "Font.id ` set (DatabaseData.fonts d2)
               \<subseteq> Font.id ` set (DatabaseData.fonts d1) \<union> set (upload_ids ops)"
    and c2: "cwd (replay ops (step op s)) = cwd (step op s)"
    by blast
  have e: "replay (op # ops) s = replay ops (step op s)" by (simp add: replay_def)
  have u: "set (upload_ids (op # ops)) = set (upload_id op) \<union> set (upload_ids ops)"
    by (simp add: upload_ids_def)
  have sub: "Font.id ` set (DatabaseData.fonts d2)
               \<subseteq> Font.id ` set (DatabaseData.fonts data)
                   \<union> (set (upload_id op) \<union> set (upload_ids ops))"
    using i1 i2 by blast
  show ?case
    unfolding e u using r2 sub c1 c2 by (intro exI[of _ d2] exI[of _ f2]) simp
qed

lemma fresh_install_font_ids:
  assumes "read_data (db (replay ops (fresh_install dir))) = Inr (data, f0)"
  shows "Font.id ` set (DatabaseData.fonts data) \<subseteq> set (upload_ids ops)"
proof -
  have "read_data (db (fresh_install dir)) = Inr (initialData, Parses (DatabaseData_json initialData))"
    by (simp add: fresh_install_def read_data_Absent)
  from replay_font_ids[OF this, of ops] assms show ?thesis by (auto simp: initialData_def)
qed

section \<open>Claims about an upload\<close>

lemma saveFont_eq:
  assumes rd: "read_data (db s) = Inr (data, f0)"
      and buf: "file_buffer file = Inr content"
  shows "FontService_saveFont uuid now file original s =
           Inr (\<lparr>Font.id = uuid, name = replace_ttf original, filename = uuid @ ''.ttf'',
                  originalName = original, path = ''/uploads/'' @ uuid @ ''.ttf'',
                  uploadedAt = now\<rparr>,
                s\<lparr>uploads := (uploads s)(uuid @ ''.ttf'' := Some content),
                  db := Parses (DatabaseData_json
                    (data\<lparr>DatabaseData.fonts := DatabaseData.fonts data @
                       [\<lparr>Font.id = uuid, name = replace_ttf original, filename = uuid @ ''.ttf'',
                         originalName = original, path = ''/uploads/'' @ uuid @ ''.ttf'',
                         uploadedAt = now\<rparr>]\<rparr>))\<rparr>)"
  using buf addFont_eq[OF rd]
  by (simp add: FontService_saveFont_def Let_def write_data_eq)

text \<open>
  An identifier as \<open>uuidv4()\<close> returns it has no \<open>/\<close> in it, so the path that
  \<open>saveFont\<close> joins from it is that of the file \<open><id>.ttf\<close> in the uploads directory,
  where the model writes.
\<close>

lemma saveFont_path:
  "CHR ''/'' \<notin> set uuid \<Longrightarrow>
     path_join dir [''uploads'', uuid @ ''.ttf''] = dir @ [''uploads'', uuid @ ''.ttf'']"
  by (rule path_join_plain[OF ttf_plain])

text \<open>
  C4. For a file object that has \<open>arrayBuffer\<close> or \<open>stream\<close>, \<open>saveFont\<close> returns a
  record whose id is the identifier the generator returned. When the store was built from
  a fresh install by the calls of a list, and the generator has returned no identifier
  twice to \<open>saveFont\<close>, this one included, that id is the id of no stored font. The
  filename is the id with \<open>.ttf\<close>, the path is \<open>/uploads/\<close> and the filename, and the name
  is the original name without a final \<open>.ttf\<close> in any letter case (the upload handler
  admits only such names). The file of that name in the uploads directory holds the
  uploaded bytes, the chunks of a stream in order; no other file changes; the record is
  appended to the stored fonts.
\<close>

theorem saveFont_result:
  assumes rd: "read_data (db s) = Inr (data, f0)"
      and valid: "arrayBuffer file \<noteq> None \<or> stream file \<noteq> None"
  shows "\<exists>font s'.
           FontService_saveFont uuid now file original s = Inr (font, s') \<and>
           Font.id font = uuid \<and>
           (s = replay ops (fresh_install (cwd s)) \<and> distinct (upload_ids ops @ [uuid]) \<longrightarrow>
              Font.id font \<notin> Font.id ` set (DatabaseData.fonts data)) \<and>
           filename font = Font.id font @ ''.ttf'' \<and>
           path font = ''/uploads/'' @ Font.id font @ ''.ttf'' \<and>
           originalName font = original \<and>
           uploadedAt font = now \<and>
           Font.name font = replace_ttf original \<and>
           (ends_with_ttf original \<longrightarrow>
              Font.name font = take (length original - 4) original \<and>
              Font.name font @ drop (length original - 4) original = original) \<and>
           uploads s' (filename font) =
             Some (case arrayBuffer file of
                     Some buffer \<Rightarrow> buffer
                   | None \<Rightarrow> concat (the (stream file))) \<and>
           (\<forall>other. other \<noteq> filename font \<longrightarrow> uploads s' other = uploads s other) \<and>
           read_data (db s') =
             Inr (data\<lparr>DatabaseData.fonts := DatabaseData.fonts data @ [font]\<rparr>, db s')"
proof -
  define content where "content = (case arrayBuffer file of
                     Some buffer \<Rightarrow> buffer
                   | None \<Rightarrow> concat (the (stream file)))"
  have buf: "file_buffer file = Inr content"
  proof (cases "arrayBuffer file")
    case None
    with valid obtain delivered where "stream file = Some delivered" by auto
    with None show ?thesis using file_buffer_stream by (simp add: content_def)
  next
    case (Some b)
    then show ?thesis by (simp add: file_buffer_def content_def)
  qed
  define font where "font = \<lparr>Font.id = uuid, name = replace_ttf original,
      filename = uuid @ ''.ttf'', originalName = original,
      path = ''/uploads/'' @ uuid @ ''.ttf'', uploadedAt = now\<rparr>"
  define s' where "s' = s\<lparr>uploads := (uploads s)(uuid @ ''.ttf'' := Some content),
      db := Parses (DatabaseData_json
              (data\<lparr>DatabaseData.fonts := DatabaseData.fonts data @ [font]\<rparr>))\<rparr>"
  have run: "FontService_saveFont uuid now file original s = Inr (font, s')"
    unfolding font_def s'_def by (rule saveFont_eq[OF rd buf])
  have rd': "read_data (db s') =
             Inr (data\<lparr>DatabaseData.fonts := DatabaseData.fonts data @ [font]\<rparr>, db s')"
    by (simp add: s'_def read_data_Parses)
  have nm: "ends_with_ttf original \<longrightarrow>
              Font.name font = take (length original - 4) original \<and>
              Font.name font @ drop (length original - 4) original = original"
    by (simp add: font_def replace_ttf_def)
  have new: "s = replay ops (fresh_install (cwd s)) \<and> distinct (upload_ids ops @ [uuid]) \<longrightarrow>
              Font.id font \<notin> Font.id ` set (DatabaseData.fonts data)"
  proof (intro impI, elim conjE)
    assume built: "s = replay ops (fresh_install (cwd s))"
      and once: "distinct (upload_ids ops @ [uuid])"
    from rd built have "read_data (db (replay ops (fresh_install (cwd s)))) = Inr (data, f0)"
      by simp
    from fresh_install_font_ids[OF this]
    have "Font.id ` set (DatabaseData.fonts data) \<subseteq> set (upload_ids ops)" .
    moreover from once have "uuid \<notin> set (upload_ids ops)" by simp
    ultimately show "Font.id font \<notin> Font.id ` set (DatabaseData.fonts data)"
      by (auto simp: font_def)
  qed
  show ?thesis
    using run rd' nm new
    by (intro exI[of _ font] exI[of _ s']) (simp add: font_def s'_def content_def)
qed

lemma upload_bytes: "file_buffer upload = Inr [0, 1, 0, 0, 0, 12]"
  using file_buffer_stream[of upload "[[0, 1, 0, 0], [], [0, 12]]"] by (simp add: upload_def)

lemma two_uploads:
  "db (replay [SaveFont arial_id 1700000000000 upload ''Arial.ttf'',
               SaveFont georgia_id 1700000001000 upload ''Georgia.ttf'']
         (fresh_install [''srv'', ''fonts''])) = Parses (DatabaseData_json two_fonts)"
  "cwd (replay [SaveFont arial_id 1700000000000 upload ''Arial.ttf'',
                SaveFont georgia_id 1700000001000 upload ''Georgia.ttf'']
         (fresh_install [''srv'', ''fonts''])) = [''srv'', ''fonts'']"
  "uploads (replay [SaveFont arial_id 1700000000000 upload ''Arial.ttf'',
                    SaveFont georgia_id 1700000001000 upload ''Georgia.ttf'']
         (fresh_install [''srv'', ''fonts''])) (arial_id @ ''.ttf'') = Some [0, 1, 0, 0, 0, 12]"
proof -
  let ?s0 = "fresh_install [''srv'', ''fonts'']"
  let ?s1 = "?s0\<lparr>uploads := (uploads ?s0)(arial_id @ ''.ttf'' := Some [0, 1, 0, 0, 0, 12]),
                  db := Parses (DatabaseData_json
                          (initialData\<lparr>DatabaseData.fonts := [arial]\<rparr>))\<rparr>"
  let ?s2 = "?s1\<lparr>uploads := (uploads ?s1)(georgia_id @ ''.ttf'' := Some [0, 1, 0, 0, 0, 12]),
                  db := Parses (DatabaseData_json two_fonts)\<rparr>"
  have n1: "replace_ttf ''Arial.ttf'' = ''Arial''" "replace_ttf ''Georgia.ttf'' = ''Georgia''"
    by (simp_all add: replace_ttf_def ends_with_ttf_def)
  have r0: "read_data (db ?s0) = Inr (initialData, Parses (DatabaseData_json initialData))"
    by (simp add: fresh_install_def read_data_Absent)
  have ga: "\<lparr>Font.id = arial_id, name = replace_ttf ''Arial.ttf'', filename = arial_id @ ''.ttf'',
              originalName = ''Arial.ttf'', path = ''/uploads/'' @ arial_id @ ''.ttf'',
              uploadedAt = 1700000000000\<rparr> = arial"
    by (simp add: n1 arial_def)
  have gg: "\<lparr>Font.id = georgia_id, name = replace_ttf ''Georgia.ttf'',
              filename = georgia_id @ ''.ttf'', originalName = ''Georgia.ttf'',
              path = ''/uploads/'' @ georgia_id @ ''.ttf'',
              uploadedAt = 1700000001000\<rparr> = georgia"
    by (simp add: n1 georgia_def)
  have e0: "initialData\<lparr>DatabaseData.fonts := DatabaseData.fonts initialData @ [arial]\<rparr>
              = initialData\<lparr>DatabaseData.fonts := [arial]\<rparr>"
    by (simp add: initialData_def)
  have e1: "(initialData\<lparr>DatabaseData.fonts := [arial]\<rparr>)
              \<lparr>DatabaseData.fonts :=
                 DatabaseData.fonts (initialData\<lparr>DatabaseData.fonts := [arial]\<rparr>) @ [georgia]\<rparr>
              = two_fonts"
    by (simp add: initialData_def two_fonts_def)
  have a: "FontService_saveFont arial_id 1700000000000 upload ''Arial.ttf'' ?s0 = Inr (arial, ?s1)"
    using saveFont_eq[OF r0 upload_bytes, of arial_id 1700000000000 "''Arial.ttf''"]
    unfolding ga e0 .
  have r1: "read_data (db ?s1)
      = Inr (initialData\<lparr>DatabaseData.fonts := [arial]\<rparr>,
             Parses (DatabaseData_json (initialData\<lparr>DatabaseData.fonts := [arial]\<rparr>)))"
    by (simp add: read_data_Parses)
  have b: "FontService_saveFont georgia_id 1700000001000 upload ''Georgia.ttf'' ?s1
             = Inr (georgia, ?s2)"
    using saveFont_eq[OF r1 upload_bytes, of georgia_id 1700000001000 "''Georgia.ttf''"]
    unfolding gg e1 .
  have "replay [SaveFont arial_id 1700000000000 upload ''Arial.ttf'',
                SaveFont georgia_id 1700000001000 upload ''Georgia.ttf''] ?s0 = ?s2"
    by (simp add: replay_def step_def a b)
  then show
    "db (replay [SaveFont arial_id 1700000000000 upload ''Arial.ttf'',
               SaveFont georgia_id 1700000001000 upload ''Georgia.ttf'']
         (fresh_install [''srv'', ''fonts''])) = Parses (DatabaseData_json two_fonts)"
    "cwd (replay [SaveFont arial_id 1700000000000 upload ''Arial.ttf'',
                SaveFont georgia_id 1700000001000 upload ''Georgia.ttf'']
         (fresh_install [''srv'', ''fonts''])) = [''srv'', ''fonts'']"
    "uploads (replay [SaveFont arial_id 1700000000000 upload ''Arial.ttf'',
                    SaveFont georgia_id 1700000001000 upload ''Georgia.ttf'']
         (fresh_install [''srv'', ''fonts''])) (arial_id @ ''.ttf'') = Some [0, 1, 0, 0, 0, 12]"
    by (simp_all add: fresh_install_def arial_id_def georgia_id_def)
qed

theorem saveFont_result_witness:
  "read_data (db (replay [SaveFont arial_id 1700000000000 upload ''Arial.ttf'',
                          SaveFont georgia_id 1700000001000 upload ''Georgia.ttf'']
                    (fresh_install [''srv'', ''fonts''])))
     = Inr (two_fonts, Parses (DatabaseData_json two_fonts)) \<and>
   stream upload = Some [[0, 1, 0, 0], [], [0, 12]] \<and>
   distinct (upload_ids [SaveFont arial_id 1700000000000 upload ''Arial.ttf'',
                         SaveFont georgia_id 1700000001000 upload ''Georgia.ttf'']
             @ [verdana_id]) \<and>
   ends_with_ttf ''Verdana.TTF'' \<and>
   (\<exists>font s'.
      FontService_saveFont verdana_id 1700000004000 upload ''Verdana.TTF''
          (replay [SaveFont arial_id 1700000000000 upload ''Arial.ttf'',
                   SaveFont georgia_id 1700000001000 upload ''Georgia.ttf'']
             (fresh_install [''srv'', ''fonts'']))
        = Inr (font, s') \<and>
      Font.id font \<notin> Font.id ` set (DatabaseData.fonts two_fonts) \<and>
      filename font = verdana_id @ ''.ttf'' \<and>
      path font = ''/uploads/'' @ verdana_id @ ''.ttf'' \<and>
      Font.name font = ''Verdana'' \<and>
      uploads s' (filename font) = Some [0, 1, 0, 0, 0, 12] \<and>
      uploads s' (arial_id @ ''.ttf'') = Some [0, 1, 0, 0, 0, 12] \<and>
      read_data (db s') = Inr (two_fonts\<lparr>DatabaseData.fonts := [arial, georgia, font]\<rparr>, db s'))"
proof -
  let ?ops = "[SaveFont arial_id 1700000000000 upload ''Arial.ttf'',
               SaveFont georgia_id 1700000001000 upload ''Georgia.ttf'']"
  let ?s = "replay ?ops (fresh_install [''srv'', ''fonts''])"
  have h1: "read_data (db ?s) = Inr (two_fonts, Parses (DatabaseData_json two_fonts))"
    by (simp add: two_uploads read_data_Parses)
  have h2: "arrayBuffer upload \<noteq> None \<or> stream upload \<noteq> None" by (simp add: upload_def)
  have h3: "distinct (upload_ids ?ops @ [verdana_id])"
    by (simp add: upload_ids_def arial_id_def georgia_id_def verdana_id_def)
  have h4: "ends_with_ttf ''Verdana.TTF''" by (simp add: ends_with_ttf_def)
  have h5: "stream upload = Some [[0, 1, 0, 0], [], [0, 12]]" by (simp add: upload_def)
  have h6: "?s = replay ?ops (fresh_install (cwd ?s))" by (simp add: two_uploads)
  from saveFont_result[OF h1 h2, of verdana_id 1700000004000 "''Verdana.TTF''" ?ops]
  obtain font s' where
    run: "FontService_saveFont verdana_id 1700000004000 upload ''Verdana.TTF'' ?s = Inr (font, s')"
    and i: "Font.id font = verdana_id"
    and fresh: "?s = replay ?ops (fresh_install (cwd ?s)) \<and> distinct (upload_ids ?ops @ [verdana_id])
                \<longrightarrow> Font.id font \<notin> Font.id ` set (DatabaseData.fonts two_fonts)"
    and fn: "filename font = Font.id font @ ''.ttf''"
    and pa: "path font = ''/uploads/'' @ Font.id font @ ''.ttf''"
    and nm: "ends_with_ttf ''Verdana.TTF'' \<longrightarrow>
              Font.name font = take (length ''Verdana.TTF'' - 4) ''Verdana.TTF'' \<and>
              Font.name font @ drop (length ''Verdana.TTF'' - 4) ''Verdana.TTF'' = ''Verdana.TTF''"
    and up: "uploads s' (filename font) =
             Some (case arrayBuffer upload of
                     Some buffer \<Rightarrow> buffer
                   | None \<Rightarrow> concat (the (stream upload)))"
    and other: "\<forall>other. other \<noteq> filename font \<longrightarrow> uploads s' other = uploads ?s other"
    and rd: "read_data (db s') =
             Inr (two_fonts\<lparr>DatabaseData.fonts := DatabaseData.fonts two_fonts @ [font]\<rparr>, db s')"
    by blast
  from fresh h6 h3 have c1: "Font.id font \<notin> Font.id ` set (DatabaseData.fonts two_fonts)" by blast
  from fn i have c2: "filename font = verdana_id @ ''.ttf''" by simp
  from pa i have c3: "path font = ''/uploads/'' @ verdana_id @ ''.ttf''" by simp
  from nm h4 have c4: "Font.name font = ''Verdana''" by simp
  from up have c5: "uploads s' (filename font) = Some [0, 1, 0, 0, 0, 12]"
    by (simp add: upload_def)
  have "arial_id @ ''.ttf'' \<noteq> filename font"
    by (simp add: c2 arial_id_def verdana_id_def)
  with other have "uploads s' (arial_id @ ''.ttf'') = uploads ?s (arial_id @ ''.ttf'')" by blast
  then have c7: "uploads s' (arial_id @ ''.ttf'') = Some [0, 1, 0, 0, 0, 12]"
    by (simp only: two_uploads(3))
  from rd have c6: "read_data (db s')
      = Inr (two_fonts\<lparr>DatabaseData.fonts := [arial, georgia, font]\<rparr>, db s')"
    by (simp add: two_fonts_def)
  show ?thesis
    apply (intro conjI exI[of _ font] exI[of _ s'])
              apply (rule h1)
             apply (rule h5)
            apply (rule h3)
           apply (rule h4)
          apply (rule run)
         apply (rule c1)
        apply (rule c2)
       apply (rule c3)
      apply (rule c4)
      apply (rule c5)
     apply (rule c7)
    apply (rule c6)
    done
qed

end
